theory Spec2Isabelle
  imports Complex_Main "HOL-Library.Sublist"
begin

section \<open>JavaScript values\<close>

text \<open>
  A JavaScript \<open>number\<close> that is finite is modelled by a real: the arithmetic of the scoring
  engine is read exactly, without the rounding of IEEE doubles. The engine produces \<open>NaN\<close>
  in one place, the arithmetic on a school-year cutoff that is not a number; every value that
  depends on it has the type \<open>number\<close>, a real or \<open>NaN\<close>. As in JavaScript, \<open>NaN\<close> is
  a value and no failure: it passes through arithmetic and through \<open>Math.round\<close>, and
  every comparison with it is false. The reals have no \<open>Infinity\<close>, so a division by zero
  is a failure branch of the model, next to the exceptions that JavaScript itself raises
  (reading a property of \<open>undefined\<close>, formatting an invalid date).
\<close>

datatype error = TypeError | RangeError | NotFinite

datatype number = Num real | NaN

definition num_lift :: "(real \<Rightarrow> real) \<Rightarrow> number \<Rightarrow> number" where
  "num_lift f x = (case x of Num a \<Rightarrow> Num (f a) | NaN \<Rightarrow> NaN)"


definition num_cmp :: "(real \<Rightarrow> real \<Rightarrow> bool) \<Rightarrow> number \<Rightarrow> number \<Rightarrow> bool" where
  "num_cmp r x y = (case x of
                      NaN \<Rightarrow> False
                    | Num a \<Rightarrow> (case y of NaN \<Rightarrow> False | Num b \<Rightarrow> r a b))"

definition bindE :: "error + 'a \<Rightarrow> ('a \<Rightarrow> error + 'b) \<Rightarrow> error + 'b" where
  "bindE m f = (case m of Inl e \<Rightarrow> Inl e | Inr v \<Rightarrow> f v)"

text \<open>\<open>Math.round\<close> rounds to the nearest integer, halves towards plus infinity.\<close>

definition js_round :: "real \<Rightarrow> real" where
  "js_round x = of_int \<lfloor>x + 1 / 2\<rfloor>"


text \<open>Division by a computed divisor: a zero divisor has no finite result.\<close>

definition js_div :: "real \<Rightarrow> real \<Rightarrow> error + real" where
  "js_div a b = (if b = 0 then Inl NotFinite else Inr (a / b))"

text \<open>The remainder operator \<open>%\<close> on integers: the sign follows the dividend.\<close>

definition js_rem :: "int \<Rightarrow> int \<Rightarrow> int" where
  "js_rem a b = (if a < 0 then - ((- a) mod \<bar>b\<bar>) else a mod \<bar>b\<bar>)"

text \<open>\<open>String.prototype.includes\<close>: the argument occurs as a contiguous substring.\<close>

fun str_includes :: "string \<Rightarrow> string \<Rightarrow> bool" where
  "str_includes [] t = (t = [])"
| "str_includes (c # cs) t = (prefix t (c # cs) \<or> str_includes cs t)"

text \<open>
  \<open>[...new Set(xs)]\<close>: the elements of \<open>xs\<close> in the order of their first occurrence.
\<close>

fun uniq :: "'a list \<Rightarrow> 'a list \<Rightarrow> 'a list" where
  "uniq seen [] = []"
| "uniq seen (x # xs) = (if x \<in> set seen then uniq seen xs else x # uniq (x # seen) xs)"

text \<open>
  \<open>Array.prototype.sort\<close> with a comparator callback, as a stable insertion sort: the
  elements are taken from left to right and each one is placed in front of the first
  element of the sorted part that the comparator puts after it (a negative result).
  Only the sign of the comparator's result is read.
\<close>

fun sort_insert :: "('a \<Rightarrow> 'a \<Rightarrow> real) \<Rightarrow> 'a \<Rightarrow> 'a list \<Rightarrow> 'a list" where
  "sort_insert cmp x [] = [x]"
| "sort_insert cmp x (y # ys) = (if cmp x y < 0 then x # y # ys else y # sort_insert cmp x ys)"

definition js_sort :: "('a \<Rightarrow> 'a \<Rightarrow> real) \<Rightarrow> 'a list \<Rightarrow> 'a list" where
  "js_sort cmp xs = foldl (\<lambda>sorted x. sort_insert cmp x sorted) [] xs"

section \<open>Dates (date-fns)\<close>

text \<open>
  A \<open>Date\<close> by its calendar fields, named after the accessors that read them:
  \<open>getYear\<close>, \<open>getMonth\<close> (0 is January, 11 is December) and \<open>getDate\<close> (the day of the month).
\<close>

record date =
  getYear :: int
  getMonth :: nat
  getDate :: nat

definition isLeapYear :: "int \<Rightarrow> bool" where
  "isLeapYear y = (y mod 400 = 0 \<or> (y mod 4 = 0 \<and> y mod 100 \<noteq> 0))"

definition getDaysInMonth :: "int \<Rightarrow> nat \<Rightarrow> nat" where
  "getDaysInMonth y m =
     (if m = 1 then (if isLeapYear y then 29 else 28)
      else if m = 3 \<or> m = 5 \<or> m = 8 \<or> m = 10 then 30 else 31)"

definition valid_date :: "date \<Rightarrow> bool" where
  "valid_date d = (getMonth d < 12 \<and> 1 \<le> getDate d
     \<and> getDate d \<le> getDaysInMonth (getYear d) (getMonth d))"


definition monthNames :: "string list" where
  "monthNames = [''January'', ''February'', ''March'', ''April'', ''May'', ''June'', ''July'',
     ''August'', ''September'', ''October'', ''November'', ''December'']"

text \<open>\<open>format(date, 'MMMM')\<close>: the name of the month; an invalid date raises \<open>RangeError\<close>.\<close>

definition format_MMMM :: "date \<Rightarrow> error + string" where
  "format_MMMM d = (if valid_date d then Inr (monthNames ! getMonth d) else Inl RangeError)"

section \<open>Geo utilities\<close>

record LocationData =
  latitude :: real
  longitude :: real
  city :: "string option"
  country :: "string option"
  timezone :: "string option"
  accuracy :: "real option"

definition calculateDistanceFromEquator :: "real \<Rightarrow> real" where
  "calculateDistanceFromEquator lat = \<bar>lat\<bar>"

definition isNorthernHemisphere :: "real \<Rightarrow> bool" where
  "isNorthernHemisphere lat = (lat > 0)"

definition calculateUVIntensityByLatitude :: "real \<Rightarrow> nat \<Rightarrow> real" where
  "calculateUVIntensityByLatitude lat month =
     (let distanceFromEquator = calculateDistanceFromEquator lat;
          baseIntensity = max 0 (10 - (distanceFromEquator / 90) * 10);
          seasonalMultiplier =
            (if isNorthernHemisphere lat
             then cos (((real month - 6) * pi) / 6) * 0.3 + 1
             else cos (((real month - 12) * pi) / 6) * 0.3 + 1)
      in max 0 (min 11 (baseIntensity * seasonalMultiplier)))"

section \<open>Seasonal risk model\<close>

datatype level = LOW | MEDIUM | HIGH

record DiseaseRiskByMonth =
  cardiovascular :: real
  mentalHealth :: real
  autoimmune :: real
  respiratory :: real
  infectious :: real

definition mkRisk :: "real \<Rightarrow> real \<Rightarrow> real \<Rightarrow> real \<Rightarrow> real \<Rightarrow> DiseaseRiskByMonth" where
  "mkRisk c m a r i =
     \<lparr> cardiovascular = c, mentalHealth = m, autoimmune = a, respiratory = r, infectious = i \<rparr>"

definition NORTHERN_HEMISPHERE_DISEASE_RISKS :: "nat \<rightharpoonup> DiseaseRiskByMonth" where
  "NORTHERN_HEMISPHERE_DISEASE_RISKS = map_of
     [(1, mkRisk 1.06 1.08 0.94 1.12 1.15),
      (2, mkRisk 1.05 1.06 0.96 1.10 1.12),
      (3, mkRisk 1.02 1.02 0.98 1.05 1.08),
      (4, mkRisk 0.98 0.96 1.02 0.98 1.02),
      (5, mkRisk 0.95 0.92 1.05 0.92 0.95),
      (6, mkRisk 0.92 0.88 1.08 0.88 0.88),
      (7, mkRisk 0.90 0.85 1.10 0.85 0.82),
      (8, mkRisk 0.92 0.88 1.08 0.88 0.85),
      (9, mkRisk 0.95 0.92 1.05 0.92 0.90),
      (10, mkRisk 0.98 0.96 1.02 0.98 0.95),
      (11, mkRisk 1.02 1.02 0.98 1.05 1.02),
      (12, mkRisk 1.05 1.06 0.96 1.10 1.10)]"

text \<open>Reading a field of a missing table entry raises \<open>TypeError\<close>.\<close>

definition calculateInfectiousRisk :: "date \<Rightarrow> LocationData \<Rightarrow> error + real" where
  "calculateInfectiousRisk birthDate location =
     (let birthMonth = getMonth birthDate + 1;
          isNorthern = isNorthernHemisphere (latitude location);
          adjustedMonth = (if isNorthern then birthMonth else ((birthMonth + 5) mod 12) + 1)
      in case NORTHERN_HEMISPHERE_DISEASE_RISKS adjustedMonth of
           None \<Rightarrow> Inl TypeError
         | Some riskData \<Rightarrow> Inr (infectious riskData))"

definition calculateDiseaseRisks :: "date \<Rightarrow> LocationData \<Rightarrow> error + DiseaseRiskByMonth" where
  "calculateDiseaseRisks birthDate location =
     (let birthMonth = getMonth birthDate + 1;
          isNorthern = isNorthernHemisphere (latitude location);
          adjustedMonth = (if isNorthern then birthMonth else ((birthMonth + 5) mod 12) + 1)
      in case NORTHERN_HEMISPHERE_DISEASE_RISKS adjustedMonth of
           None \<Rightarrow> Inl TypeError
         | Some riskData \<Rightarrow>
             Inr \<lparr> cardiovascular = cardiovascular riskData,
                   mentalHealth = mentalHealth riskData,
                   autoimmune = autoimmune riskData,
                   respiratory = respiratory riskData,
                   infectious = infectious riskData \<rparr>)"

text \<open>
  The vitamin D score averages the UV intensity over the six months that start with the
  birth month. (The source also computes a \<open>synthesisCapacity\<close> that it never reads.)
\<close>

definition calculateVitaminDSynthesis :: "LocationData \<Rightarrow> date \<Rightarrow> real" where
  "calculateVitaminDSynthesis location birthDate =
     (let birthMonth = getMonth birthDate + 1;
          criticalMonths =
            map (\<lambda>i. calculateUVIntensityByLatitude (latitude location)
                        (((birthMonth - 1 + i) mod 12) + 1)) [0..<6];
          averageCriticalUV = foldl (\<lambda>sum uv. sum + uv) 0 criticalMonths / 6
      in max 0 (min 100 (averageCriticalUV * 10)))"

text \<open>
  What reading a property of an object literal yields: a number that the literal lists
  under the key, or a member that the object inherits from \<open>Object.prototype\<close> (a function,
  or the prototype itself for \<open>__proto__\<close>). An inherited member is truthy, and it is not a
  number: arithmetic on it gives \<open>NaN\<close>.
\<close>

datatype property = NumberValue int | PrototypeMember

definition objectPrototypeKeys :: "string list" where
  "objectPrototypeKeys = [''constructor'', ''__defineGetter__'', ''__defineSetter__'',
     ''hasOwnProperty'', ''__lookupGetter__'', ''__lookupSetter__'', ''isPrototypeOf'',
     ''propertyIsEnumerable'', ''toString'', ''valueOf'', ''__proto__'', ''toLocaleString'']"

text \<open>
  The lookup \<open>schoolYearCutoffs[key]\<close>: the eight keys of the literal first, then the
  inherited members; any other key is \<open>undefined\<close>.
\<close>

definition schoolYearCutoffs :: "string \<rightharpoonup> property" where
  "schoolYearCutoffs key =
     (case map_of [(''US'', 9), (''UK'', 9), (''Canada'', 9), (''Australia'', 1), (''Germany'', 6),
                   (''France'', 9), (''Japan'', 4), (''default'', 9)] key of
        Some cutoff \<Rightarrow> Some (NumberValue cutoff)
      | None \<Rightarrow> (if key \<in> set objectPrototypeKeys then Some PrototypeMember else None))"

text \<open>
  The country is optional and defaults to \<open>US\<close>. The operator \<open>||\<close> reads the \<open>default\<close>
  entry when the lookup is falsy, that is \<open>undefined\<close> or 0; an inherited member is kept.
  With a cutoff that is not a number the subtraction, the remainder and \<open>Math.max\<close> all
  give \<open>NaN\<close>.
\<close>

definition calculateRelativeAgeEffect :: "date \<Rightarrow> string option \<Rightarrow> number" where
  "calculateRelativeAgeEffect birthDate countryArg =
     (let birthMonth = getMonth birthDate + 1;
          country = (case countryArg of None \<Rightarrow> ''US'' | Some c \<Rightarrow> c);
          cutoffMonth = (case schoolYearCutoffs country of
                           None \<Rightarrow> schoolYearCutoffs ''default''
                         | Some (NumberValue c) \<Rightarrow>
                             (if c = 0 then schoolYearCutoffs ''default'' else Some (NumberValue c))
                         | Some PrototypeMember \<Rightarrow> Some PrototypeMember)
      in case cutoffMonth of
           None \<Rightarrow> NaN
         | Some PrototypeMember \<Rightarrow> NaN
         | Some (NumberValue cutoff) \<Rightarrow>
             (let monthsFromCutoff = js_rem (int birthMonth - cutoff + 12) 12
              in Num (max 0 (100 - (real_of_int monthsFromCutoff * 8.33)))))"

record SeasonalRiskData =
  birthMonth :: nat
  vitaminDScore :: real
  infectiousRisk :: real
  relativeAgeAdvantage :: number
  cardiovascularRisk :: real
  mentalHealthRisk :: real
  autoImmuneRisk :: real
  overallSeasonalScore :: number
  riskLevel :: level

definition calculateSeasonalRisk :: "date \<Rightarrow> LocationData \<Rightarrow> error + SeasonalRiskData" where
  "calculateSeasonalRisk birthDate location =
     (let vitaminD = calculateVitaminDSynthesis location birthDate
      in bindE (calculateInfectiousRisk birthDate location) (\<lambda>infectiousRaw.
         (let relativeAge = calculateRelativeAgeEffect birthDate (country location)
          in bindE (calculateDiseaseRisks birthDate location) (\<lambda>diseaseRisks.
           (let normalizedInfectiousRisk = max 0 ((infectiousRaw - 0.8) * 500);
                normalizedCardiovascularRisk = max 0 ((cardiovascular diseaseRisks - 0.9) * 500);
                normalizedMentalHealthRisk = max 0 ((mentalHealth diseaseRisks - 0.85) * 400);
                normalizedAutoImmuneRisk = max 0 (\<bar>autoimmune diseaseRisks - 1.0\<bar> * 1000);
                overall = num_lift (\<lambda>relativeAgeValue. js_round (
                  (vitaminD * 0.3) +
                  ((100 - min 100 normalizedInfectiousRisk) * 0.25) +
                  (relativeAgeValue * 0.15) +
                  ((100 - min 100 normalizedCardiovascularRisk) * 0.15) +
                  ((100 - min 100 normalizedMentalHealthRisk) * 0.10) +
                  ((100 - min 100 normalizedAutoImmuneRisk) * 0.05))) relativeAge
            in Inr \<lparr> birthMonth = getMonth birthDate + 1,
                      vitaminDScore = js_round vitaminD,
                      infectiousRisk = js_round normalizedInfectiousRisk,
                      relativeAgeAdvantage = num_lift js_round relativeAge,
                      cardiovascularRisk = js_round normalizedCardiovascularRisk,
                      mentalHealthRisk = js_round normalizedMentalHealthRisk,
                      autoImmuneRisk = js_round normalizedAutoImmuneRisk,
                      overallSeasonalScore = overall,
                      riskLevel = (if num_cmp (\<lambda>a b. a \<ge> b) overall (Num 70) then LOW
                                   else if num_cmp (\<lambda>a b. a \<ge> b) overall (Num 50) then MEDIUM
                                   else HIGH) \<rparr>)))))"

definition getSeasonalRecommendations :: "date \<Rightarrow> LocationData \<Rightarrow> error + string list" where
  "getSeasonalRecommendations birthDate location =
     bindE (calculateSeasonalRisk birthDate location) (\<lambda>seasonalRisk. Inr (
       (if vitaminDScore seasonalRisk < 50
        then [''Consider vitamin D supplementation during pregnancy and early infancy'']
        else []) @
       (if infectiousRisk seasonalRisk > 70
        then [''Take extra precautions against infections during the first 6 months'']
        else []) @
       (if num_cmp (\<lambda>a b. a < b) (relativeAgeAdvantage seasonalRisk) (Num 30)
        then [''Child may benefit from delayed school entry or summer programs'']
        else []) @
       (if cardiovascularRisk seasonalRisk > 60
        then [''Monitor cardiovascular health markers throughout life'']
        else []) @
       (if mentalHealthRisk seasonalRisk > 60
        then [''Be aware of increased mental health risks and ensure good support systems'']
        else [])))"

section \<open>Solar cycle model\<close>

datatype cycle_phase = minimum | ascending | maximum | descending

record SolarCycleData =
  cycleNumber :: int
  startYear :: int
  peakYear :: int
  endYear :: int
  maxSunspots :: real
  phase :: cycle_phase

definition SOLAR_CYCLES :: "SolarCycleData list" where
  "SOLAR_CYCLES =
    [\<lparr> cycleNumber = 20, startYear = 1964, peakYear = 1968, endYear = 1976, maxSunspots = 156, phase = minimum \<rparr>,
     \<lparr> cycleNumber = 21, startYear = 1976, peakYear = 1979, endYear = 1986, maxSunspots = 232, phase = minimum \<rparr>,
     \<lparr> cycleNumber = 22, startYear = 1986, peakYear = 1989, endYear = 1996, maxSunspots = 212, phase = minimum \<rparr>,
     \<lparr> cycleNumber = 23, startYear = 1996, peakYear = 2000, endYear = 2008, maxSunspots = 180, phase = minimum \<rparr>,
     \<lparr> cycleNumber = 24, startYear = 2008, peakYear = 2012, endYear = 2019, maxSunspots = 146, phase = minimum \<rparr>,
     \<lparr> cycleNumber = 25, startYear = 2019, peakYear = 2024, endYear = 2030, maxSunspots = 137, phase = ascending \<rparr>]"

text \<open>The test by which a calendar year belongs to a cycle.\<close>

definition inCycle :: "int \<Rightarrow> SolarCycleData \<Rightarrow> bool" where
  "inCycle year cycle = (year \<ge> startYear cycle \<and> year \<le> endYear cycle)"

definition predictFutureSolarCycle :: "date \<Rightarrow> SolarCycleData" where
  "predictFutureSolarCycle d =
     (let year = getYear d;
          lastCycle = SOLAR_CYCLES ! (length SOLAR_CYCLES - 1)
      in if year > endYear lastCycle
         then (let cyclesAhead = \<lceil>real_of_int (year - endYear lastCycle) / 11\<rceil>;
                   start = endYear lastCycle + ((cyclesAhead - 1) * 11)
               in \<lparr> cycleNumber = cycleNumber lastCycle + cyclesAhead,
                    startYear = start,
                    peakYear = start + 4,
                    endYear = start + 11,
                    maxSunspots = 140,
                    phase = minimum \<rparr>)
         else lastCycle)"

definition getSolarCycleForDate :: "date \<Rightarrow> SolarCycleData" where
  "getSolarCycleForDate d =
     (case find (\<lambda>cycle. inCycle (getYear d) cycle) SOLAR_CYCLES of
        Some cycle \<Rightarrow> cycle
      | None \<Rightarrow> predictFutureSolarCycle d)"

text \<open>
  The results of \<open>Math.random()\<close> that one analysis reads, each in \<open>[0,1)\<close>: one for the
  sunspot number, one for the solar flux index and one for the geomagnetic index.
\<close>

record draws =
  sunspotDraw :: real
  fluxDraw :: real
  geomagneticDraw :: real

definition calculateSunspotNumber :: "date \<Rightarrow> real \<Rightarrow> error + real" where
  "calculateSunspotNumber d random =
     (let cycle = getSolarCycleForDate d;
          year = getYear d;
          month = getMonth d;
          yearInCycle = real_of_int (year - startYear cycle) + (real month / 12)
      in bindE (js_div yearInCycle (real_of_int (endYear cycle - startYear cycle))) (\<lambda>cycleProgress.
           (let phaseRadians = cycleProgress * 2 * pi;
                baseActivity = sin phaseRadians;
                peakAdjustment = exp (- ((cycleProgress - 0.36) ^ 2) * 8);
                sunspots = max 0 ((baseActivity * 0.7 + peakAdjustment * 0.8) * maxSunspots cycle
                                  + (random - 0.5) * 20)
            in Inr (js_round sunspots))))"

definition calculateUVFromSolarActivity :: "real \<Rightarrow> real" where
  "calculateUVFromSolarActivity sunspots =
     (let baseUV = 5;
          solarMultiplier = 1 + (sunspots / 200) * 0.3
      in min 11 (baseUV * solarMultiplier))"

record SolarActivityData =
  date :: date
  sunspotNumber :: real
  solarFluxIndex :: real
  geomagneticIndex :: real
  cosmicRayIntensity :: real
  cyclePhase :: string
  lifespanImpact :: real
  uvRadiationLevel :: real

definition calculateSolarActivityData :: "date \<Rightarrow> draws \<Rightarrow> error + SolarActivityData" where
  "calculateSolarActivityData d r =
     bindE (calculateSunspotNumber d (sunspotDraw r)) (\<lambda>sunspots.
       (let cycle = getSolarCycleForDate d;
            year = getYear d;
            yearInCycle = real_of_int (year - startYear cycle)
        in bindE (js_div yearInCycle (real_of_int (endYear cycle - startYear cycle))) (\<lambda>cycleProgress.
             (let phaseName = (if cycleProgress < 0.2 then ''minimum''
                               else if cycleProgress < 0.5 then ''ascending''
                               else if cycleProgress < 0.7 then ''maximum''
                               else ''descending'');
                  normalizedSunspots = max 0 (min 200 sunspots);
                  impact = (if normalizedSunspots < 30
                            then 0.5 - (normalizedSunspots / 30) * 0.8
                            else if normalizedSunspots < 120
                            then - 0.3 - ((normalizedSunspots - 30) / 90) * 4.5
                            else - 4.8 - ((normalizedSunspots - 120) / 80) * 1.8);
                  monthVariation = (real (getMonth d) - 6) * 0.1;
                  finalLifespanImpact = js_round ((impact + monthVariation) * 10) / 10
              in Inr \<lparr> date = d,
                        sunspotNumber = sunspots,
                        solarFluxIndex = max 70 (sunspots + 70 + fluxDraw r * 30),
                        geomagneticIndex = max 0 (min 9 (sunspots / 30 + geomagneticDraw r * 2)),
                        cosmicRayIntensity = max 0 (100 - (sunspots / 2)),
                        cyclePhase = phaseName,
                        lifespanImpact = finalLifespanImpact,
                        uvRadiationLevel = calculateUVFromSolarActivity sunspots \<rparr>))))"

definition getSolarRiskLevel :: "real \<Rightarrow> level" where
  "getSolarRiskLevel sunspots =
     (if sunspots < 50 then LOW else if sunspots < 100 then MEDIUM else HIGH)"

definition calculateMentalHealthRisk :: "real \<Rightarrow> real" where
  "calculateMentalHealthRisk sunspots =
     (let baseRisk = 1.0;
          solarMaximumMultiplier = (if sunspots > 90 then 1.3 else 1.0)
      in baseRisk * solarMaximumMultiplier)"

section \<open>Optimal timing engine\<close>

datatype category = solar | seasonal | geographic | environmental

record RiskFactor =
  category :: category
  name :: string
  impact :: real
  severity :: level
  description :: string

record SolarDataSummary =
  solar_sunspotNumber :: real
  solar_solarRisk :: level
  solar_lifespanImpact :: real
  solar_mentalHealthMultiplier :: real
  solar_uvRadiationLevel :: real

record SeasonalDataSummary =
  seasonal_vitaminDScore :: real
  seasonal_infectiousRisk :: real
  seasonal_relativeAgeAdvantage :: number
  seasonal_overallSeasonalScore :: number

record OptimalTimingResult =
  birthDate :: date
  overallScore :: number
  lifeExpectancyDelta :: real
  confidenceLevel :: level
  riskFactors :: "RiskFactor list"
  recommendations :: "string list"
  solarData :: SolarDataSummary
  seasonalData :: SeasonalDataSummary

definition WEIGHTS_solar :: real where "WEIGHTS_solar = 0.4"
definition WEIGHTS_seasonal :: real where "WEIGHTS_seasonal = 0.35"
definition WEIGHTS_geographic :: real where "WEIGHTS_geographic = 0.15"
definition WEIGHTS_environmental :: real where "WEIGHTS_environmental = 0.1"

subsection \<open>Strings\<close>

text \<open>
  Strings are byte strings in UTF-8. The warning sign that marks some recommendations is
  the code point U+26A0 followed by the variation selector U+FE0F.
\<close>

definition warningSign :: string where
  "warningSign = [CHR 0xE2, CHR 0x9A, CHR 0xA0, CHR 0xEF, CHR 0xB8, CHR 0x8F]"

definition criticalMarker :: string where
  "criticalMarker = warningSign @ '' CRITICAL''"

fun digits :: "nat \<Rightarrow> string" where
  "digits n = (if n < 10 then [''0123456789'' ! n]
               else digits (n div 10) @ [''0123456789'' ! (n mod 10)])"

text \<open>
  \<open>x.toFixed(1)\<close> for a number below \<open>10^21\<close> in size: the sign, then the nearest
  multiple of a tenth (the larger one on a tie) in decimal, one digit after the point.
\<close>

definition toFixed1 :: "real \<Rightarrow> string" where
  "toFixed1 x =
     (let n = nat \<lfloor>\<bar>x\<bar> * 10 + 1 / 2\<rfloor>
      in (if x < 0 then ''-'' else []) @ digits (n div 10) @ ''.'' @ digits (n mod 10))"

subsection \<open>Risk factors\<close>

definition solarFactor :: "SolarActivityData \<Rightarrow> RiskFactor list" where
  "solarFactor solarActivity =
     (if lifespanImpact solarActivity < - 1
      then [\<lparr> category = solar,
              name = ''Solar Activity Risk'',
              impact = - js_round (\<bar>lifespanImpact solarActivity\<bar> * 12),
              severity = (if lifespanImpact solarActivity < - 3 then HIGH else MEDIUM),
              description = ''High solar activity during birth period affects development'' \<rparr>]
      else if lifespanImpact solarActivity > 0.5
      then [\<lparr> category = solar,
              name = ''Solar Minimum Benefit'',
              impact = js_round (lifespanImpact solarActivity * 15),
              severity = LOW,
              description = ''Low solar activity provides optimal conditions'' \<rparr>]
      else [\<lparr> category = solar,
              name = ''Solar Activity Neutral'',
              impact = js_round (lifespanImpact solarActivity * 5),
              severity = LOW,
              description = ''Moderate solar activity with minimal impact'' \<rparr>])"

definition uvFactor :: "SolarActivityData \<Rightarrow> RiskFactor list" where
  "uvFactor solarActivity =
     (let uvImpact = js_round ((uvRadiationLevel solarActivity - 6) * 5)
      in if \<bar>uvImpact\<bar> > 2
         then [\<lparr> category = solar,
                 name = (if uvImpact > 0 then ''UV Exposure Risk'' else ''UV Protection Benefit''),
                 impact = (if uvImpact > 0 then - \<bar>uvImpact\<bar> else \<bar>uvImpact\<bar>),
                 severity = (if \<bar>uvImpact\<bar> > 15 then HIGH
                             else if \<bar>uvImpact\<bar> > 8 then MEDIUM else LOW),
                 description = (if uvImpact > 0
                                then ''Elevated UV radiation increases health risks''
                                else ''Lower UV exposure reduces radiation risks'') \<rparr>]
         else [])"

definition vitaminDFactor :: "SeasonalRiskData \<Rightarrow> RiskFactor list" where
  "vitaminDFactor seasonalRisk =
     (let vitaminDImpact = js_round ((vitaminDScore seasonalRisk - 60) * 0.5)
      in [\<lparr> category = seasonal,
              name = (if vitaminDImpact > 0 then ''Vitamin D Advantage''
                      else ''Vitamin D Deficiency Risk''),
              impact = vitaminDImpact,
              severity = (if \<bar>vitaminDImpact\<bar> > 15 then HIGH
                          else if \<bar>vitaminDImpact\<bar> > 8 then MEDIUM else LOW),
              description = (if vitaminDImpact > 0
                             then ''Optimal vitamin D synthesis during pregnancy''
                             else ''Limited vitamin D synthesis may affect development'') \<rparr>])"

definition infectionFactor :: "SeasonalRiskData \<Rightarrow> RiskFactor list" where
  "infectionFactor seasonalRisk =
     (let infectionImpact = js_round ((infectiousRisk seasonalRisk - 50) * 0.6)
      in if \<bar>infectionImpact\<bar> > 3
         then [\<lparr> category = seasonal,
                 name = (if infectionImpact > 0 then ''Infection Season Risk''
                         else ''Low Infection Period''),
                 impact = (if infectionImpact > 0 then - \<bar>infectionImpact\<bar>
                           else \<bar>infectionImpact\<bar>),
                 severity = (if \<bar>infectionImpact\<bar> > 18 then HIGH
                             else if \<bar>infectionImpact\<bar> > 10 then MEDIUM else LOW),
                 description = (if infectionImpact > 0
                                then ''Higher infection rates during birth period''
                                else ''Lower infection risk provides health benefits'') \<rparr>]
         else [])"

text \<open>The comparison \<open>NaN > 60\<close> is false: no factor then.\<close>

definition academicFactor :: "SeasonalRiskData \<Rightarrow> RiskFactor list" where
  "academicFactor seasonalRisk =
     (case relativeAgeAdvantage seasonalRisk of
        NaN \<Rightarrow> []
      | Num advantage \<Rightarrow>
          (if advantage > 60
           then [\<lparr> category = seasonal,
                   name = ''School Age Advantage'',
                   impact = js_round ((advantage - 50) * 0.8),
                   severity = LOW,
                   description = ''Favorable birth timing for academic year'' \<rparr>]
           else []))"

definition latitudeFactor :: "LocationData \<Rightarrow> RiskFactor list" where
  "latitudeFactor location =
     (let distanceFromEquator = \<bar>latitude location\<bar>;
          latitudeImpact = js_round ((35 - distanceFromEquator) * 0.6)
      in [\<lparr> category = geographic,
              name = (if latitudeImpact > 0 then ''Favorable Latitude'' else ''Latitude Challenge''),
              impact = latitudeImpact,
              severity = (if \<bar>latitudeImpact\<bar> > 15 then MEDIUM else LOW),
              description = (if latitudeImpact > 0
                             then ''Optimal latitude for balanced seasonal exposure''
                             else ''Extreme latitude affects seasonal patterns'') \<rparr>])"

datatype season = spring | summer | fall | winter

definition environmentalFactor :: "date \<Rightarrow> RiskFactor list" where
  "environmentalFactor targetDate =
     (let month = getMonth targetDate;
          season = (if month \<ge> 3 \<and> month \<le> 5 then spring
                    else if month \<ge> 6 \<and> month \<le> 8 then summer
                    else if month \<ge> 9 \<and> month \<le> 11 then fall else winter);
          envImpact = (case season of spring \<Rightarrow> - 12 | summer \<Rightarrow> 8 | fall \<Rightarrow> 5 | winter \<Rightarrow> - 18);
          envName = (case season of
                       spring \<Rightarrow> ''Spring Allergen Exposure''
                     | summer \<Rightarrow> ''Summer Air Quality''
                     | fall \<Rightarrow> ''Fall Transition Period''
                     | winter \<Rightarrow> ''Winter Environmental Risk'');
          envDesc = (case season of
                       spring \<Rightarrow> ''High pollen counts during birth period''
                     | summer \<Rightarrow> ''Generally better air quality and outdoor conditions''
                     | fall \<Rightarrow> ''Moderate environmental conditions''
                     | winter \<Rightarrow> ''Indoor pollution and respiratory illness risk'')
      in [\<lparr> category = environmental,
              name = envName,
              impact = envImpact,
              severity = (if \<bar>envImpact\<bar> > 15 then MEDIUM else LOW),
              description = envDesc \<rparr>])"

subsection \<open>Recommendations\<close>

definition solarRecommendations :: "SolarActivityData \<Rightarrow> string list" where
  "solarRecommendations solarActivity =
     (if lifespanImpact solarActivity < - 5
      then [warningSign @ '' CRITICAL: Consider delaying conception by 12-18 months - peak solar maximum detected with significant lifespan impact (-''
              @ toFixed1 \<bar>lifespanImpact solarActivity\<bar> @ '' years)'']
      else if lifespanImpact solarActivity < - 3
      then [''Consider delaying conception by 6-12 months to avoid peak solar activity (current impact: ''
              @ toFixed1 (lifespanImpact solarActivity) @ '' years)'']
      else if lifespanImpact solarActivity > 2
      then [''Excellent solar conditions detected - optimal timing from a solar cycle perspective (+''
              @ toFixed1 (lifespanImpact solarActivity) @ '' years lifespan benefit)'']
      else [])"

definition vitaminDRecommendations :: "SeasonalRiskData \<Rightarrow> date \<Rightarrow> error + string list" where
  "vitaminDRecommendations seasonalRisk targetDate =
     (if vitaminDScore seasonalRisk < 30
      then bindE (format_MMMM targetDate) (\<lambda>monthName. Inr
             [warningSign @ '' CRITICAL: Start high-dose vitamin D supplementation immediately (2000-4000 IU daily) - severe deficiency risk in ''
                @ monthName,
              ''Schedule vitamin D blood test before conception and monitor levels throughout pregnancy''])
      else if vitaminDScore seasonalRisk < 50
      then bindE (format_MMMM targetDate) (\<lambda>monthName. Inr
             [''Begin vitamin D supplementation (1000-2000 IU daily) at least 3 months before conception'',
              ''Consider light therapy during pregnancy months if born in '' @ monthName])
      else if vitaminDScore seasonalRisk > 80
      then Inr [''Excellent vitamin D synthesis expected - maintain outdoor activities for natural production'']
      else Inr [])"

definition infectionRecommendations :: "SeasonalRiskData \<Rightarrow> date \<Rightarrow> error + string list" where
  "infectionRecommendations seasonalRisk targetDate =
     (if infectiousRisk seasonalRisk > 80
      then bindE (format_MMMM targetDate) (\<lambda>monthName. Inr
             [warningSign @ '' High infection risk period - implement strict hygiene protocols during first trimester'',
              ''Consider flu vaccination before conception and pertussis vaccine during pregnancy'',
              ''Limit exposure to crowded spaces during peak '' @ monthName @ '' infection season''])
      else if infectiousRisk seasonalRisk > 60
      then Inr [''Moderate infection risk - maintain good hygiene practices and consider immune support supplements'']
      else Inr [])"

definition schoolRecommendations :: "SeasonalRiskData \<Rightarrow> string list" where
  \<open>schoolRecommendations seasonalRisk =
     (if num_cmp (\<lambda>a b. a > b) (relativeAgeAdvantage seasonalRisk) (Num 70)
      then [''Excellent school entry timing - child will be among oldest in class with documented academic advantages'',
            ''Consider early enrichment programs to maximize age-related developmental advantages'']
      else if num_cmp (\<lambda>a b. a < b) (relativeAgeAdvantage seasonalRisk) (Num 30)
      then [''Child will be among youngest in class - consider delayed kindergarten entry or "redshirting"'',
            ''Focus on early childhood development programs to offset relative age disadvantage'']
      else [])\<close>

definition latitudeRecommendations :: "LocationData \<Rightarrow> string list" where
  "latitudeRecommendations location =
     (if \<bar>latitude location\<bar> > 50
      then [''Northern latitude detected - ensure adequate indoor air quality and humidity control during winter months'',
            ''Consider seasonal affective disorder (SAD) prevention with light therapy during pregnancy'']
      else [])"

definition mentalHealthRecommendations :: "real \<Rightarrow> date \<Rightarrow> error + string list" where
  "mentalHealthRecommendations mentalHealthMultiplier targetDate =
     (if mentalHealthMultiplier > 1.3
      then bindE (format_MMMM targetDate) (\<lambda>monthName. Inr
             [''Elevated mental health risks detected - establish care team including mental health specialist'',
              ''Create postpartum support plan with emphasis on '' @ monthName @ '' seasonal factors''])
      else Inr [])"

definition closingRecommendation :: "number \<Rightarrow> string list" where
  "closingRecommendation score =
     (if num_cmp (\<lambda>a b. a \<ge> b) score (Num 80)
      then [''Optimal timing confirmed - proceed with standard prenatal care and preparation'']
      else if num_cmp (\<lambda>a b. a \<ge> b) score (Num 60)
      then [''Good timing with manageable risks - focus on addressing specific risk factors identified above'']
      else [''Consider alternative timing or implement comprehensive risk mitigation strategies''])"

text \<open>The comparator that orders the recommendations.\<close>

definition recommendationOrder :: "string \<Rightarrow> string \<Rightarrow> real" where
  "recommendationOrder a b =
     (if str_includes a criticalMarker then - 1
      else if str_includes b criticalMarker then 1
      else if str_includes a ''Consider delaying'' then - 1
      else if str_includes b ''Consider delaying'' then 1
      else 0)"

subsection \<open>The analysis of one date\<close>

text \<open>
  The parameter \<open>analysisRange\<close> of the source is never read and is left out; the third
  argument holds the random draws of the call.
\<close>

definition calculateOptimalTiming ::
  "LocationData \<Rightarrow> date \<Rightarrow> draws \<Rightarrow> error + OptimalTimingResult" where
  "calculateOptimalTiming location targetDate random =
     bindE (calculateSolarActivityData targetDate random) (\<lambda>solarActivity.
     (let solarRisk = getSolarRiskLevel (sunspotNumber solarActivity);
          mentalHealthMultiplier = calculateMentalHealthRisk (sunspotNumber solarActivity)
      in bindE (calculateSeasonalRisk targetDate location) (\<lambda>seasonalRisk.
     (let factors = solarFactor solarActivity @ uvFactor solarActivity
            @ vitaminDFactor seasonalRisk @ infectionFactor seasonalRisk
            @ academicFactor seasonalRisk @ latitudeFactor location
            @ environmentalFactor targetDate;
          distanceFromEquator = \<bar>latitude location\<bar>;
          solarScore = max 0 (100 - \<bar>lifespanImpact solarActivity\<bar> * 15);
          seasonalScore = overallSeasonalScore seasonalRisk;
          geographicScore = max 0 (100 - distanceFromEquator);
          environmentalScore = 75;
          score = num_lift (\<lambda>seasonalValue. js_round (
            (solarScore * WEIGHTS_solar) +
            (seasonalValue * WEIGHTS_seasonal) +
            (geographicScore * WEIGHTS_geographic) +
            (environmentalScore * WEIGHTS_environmental))) seasonalScore;
          confidence = (if num_cmp (\<lambda>a b. a \<ge> b) score (Num 80) then HIGH
                        else if num_cmp (\<lambda>a b. a \<ge> b) score (Num 60) then MEDIUM else LOW)
      in bindE (vitaminDRecommendations seasonalRisk targetDate) (\<lambda>vitaminDRecs.
         bindE (infectionRecommendations seasonalRisk targetDate) (\<lambda>infectionRecs.
         bindE (mentalHealthRecommendations mentalHealthMultiplier targetDate) (\<lambda>mentalHealthRecs.
         bindE (getSeasonalRecommendations targetDate location) (\<lambda>seasonalRecs.
     (let recs = solarRecommendations solarActivity @ vitaminDRecs @ infectionRecs
            @ schoolRecommendations seasonalRisk @ latitudeRecommendations location
            @ mentalHealthRecs @ seasonalRecs @ closingRecommendation score;
          uniqueRecommendations = uniq [] recs;
          sortedRecommendations = js_sort recommendationOrder uniqueRecommendations
      in Inr \<lparr> birthDate = targetDate,
                overallScore = score,
                lifeExpectancyDelta = lifespanImpact solarActivity,
                confidenceLevel = confidence,
                riskFactors = factors,
                recommendations = sortedRecommendations,
                solarData = \<lparr> solar_sunspotNumber = sunspotNumber solarActivity,
                              solar_solarRisk = solarRisk,
                              solar_lifespanImpact = lifespanImpact solarActivity,
                              solar_mentalHealthMultiplier = mentalHealthMultiplier,
                              solar_uvRadiationLevel = uvRadiationLevel solarActivity \<rparr>,
                seasonalData = \<lparr> seasonal_vitaminDScore = vitaminDScore seasonalRisk,
                                 seasonal_infectiousRisk = infectiousRisk seasonalRisk,
                                 seasonal_relativeAgeAdvantage = relativeAgeAdvantage seasonalRisk,
                                 seasonal_overallSeasonalScore = overallSeasonalScore seasonalRisk \<rparr> \<rparr>)))))))))"

subsection \<open>The analysis of a range of months\<close>






section \<open>Auxiliary notions for the proofs\<close>

text \<open>
  The record that \<open>predictFutureSolarCycle\<close> builds for a year that lies \<open>k\<close> cycles after
  the last one of the table.
\<close>

definition futureCycle :: "int \<Rightarrow> SolarCycleData" where
  "futureCycle k = \<lparr> cycleNumber = 25 + k, startYear = 2030 + (k - 1) * 11,
     peakYear = 2030 + (k - 1) * 11 + 4, endYear = 2030 + (k - 1) * 11 + 11,
     maxSunspots = 140, phase = minimum \<rparr>"

text \<open>A list whose elements with property \<open>P\<close> all stand before the others.\<close>

definition marked_first :: "('a \<Rightarrow> bool) \<Rightarrow> 'a list \<Rightarrow> bool" where
  "marked_first P xs = (\<exists>ys zs. xs = ys @ zs \<and> (\<forall>x\<in>set ys. P x) \<and> (\<forall>x\<in>set zs. \<not> P x))"

section \<open>Sample inputs\<close>

definition newYork :: LocationData where
  "newYork = \<lparr> latitude = 40.7128, longitude = - 74.0060, city = Some ''New York'',
     country = Some ''United States'', timezone = None, accuracy = None \<rparr>"

definition sydney :: LocationData where
  "sydney = \<lparr> latitude = - 33.8688, longitude = 151.2093, city = Some ''Sydney'',
     country = Some ''Australia'', timezone = None, accuracy = None \<rparr>"

definition january2024 :: date where
  "january2024 = \<lparr> getYear = 2024, getMonth = 0, getDate = 15 \<rparr>"

definition july2024 :: date where
  "july2024 = \<lparr> getYear = 2024, getMonth = 6, getDate = 15 \<rparr>"

definition midDraws :: draws where
  "midDraws = \<lparr> sunspotDraw = 0.5, fluxDraw = 0.5, geomagneticDraw = 0.5 \<rparr>"

definition lowDraws :: draws where
  "lowDraws = \<lparr> sunspotDraw = 0, fluxDraw = 0.25, geomagneticDraw = 0.75 \<rparr>"

definition arctic :: LocationData where
  "arctic = \<lparr> latitude = 75, longitude = 20, city = None, country = None,
     timezone = None, accuracy = None \<rparr>"

definition year1976 :: date where
  "year1976 = \<lparr> getYear = 1976, getMonth = 5, getDate = 1 \<rparr>"

text \<open>The recommendation of the mental-health branch.\<close>

abbreviation mentalHealthMessage :: string where
  "mentalHealthMessage \<equiv>
     ''Elevated mental health risks detected - establish care team including mental health specialist''"

text \<open>A location whose country is the name of a member inherited from \<open>Object.prototype\<close>.\<close>

definition constructorLand :: LocationData where
  "constructorLand = \<lparr> latitude = 40.7128, longitude = - 74.0060, city = Some ''New York'',
     country = Some ''constructor'', timezone = None, accuracy = None \<rparr>"


text \<open>A number that is \<open>NaN\<close> or lies between two bounds.\<close>

definition num_within :: "real \<Rightarrow> real \<Rightarrow> number \<Rightarrow> bool" where
  "num_within lo hi x = (case x of NaN \<Rightarrow> True | Num a \<Rightarrow> lo \<le> a \<and> a \<le> hi)"

text \<open>A country argument that names a member inherited from \<open>Object.prototype\<close>.\<close>

definition inheritedKey :: "string option \<Rightarrow> bool" where
  "inheritedKey c = (case c of None \<Rightarrow> False | Some key \<Rightarrow> key \<in> set objectPrototypeKeys)"

section \<open>Properties of the solar cycle model\<close>

lemma js_round_ge: "of_int a \<le> x \<Longrightarrow> of_int a \<le> js_round x"
  unfolding js_round_def by (simp add: le_floor_iff)

lemma js_round_le: "x \<le> of_int b \<Longrightarrow> js_round x \<le> of_int b"
  unfolding js_round_def by (simp add: floor_le_iff)

lemma js_round_Ints: "js_round x \<in> \<int>"
  unfolding js_round_def by simp

lemma ceil11: "\<lceil>real_of_int a / 11\<rceil> = - ((- a) div 11)"
  using ceiling_divide_eq_div [of a 11] by simp

lemma last_cycle:
  "SOLAR_CYCLES ! (length SOLAR_CYCLES - 1)
     = \<lparr> cycleNumber = 25, startYear = 2019, peakYear = 2024, endYear = 2030, maxSunspots = 137, phase = ascending \<rparr>"
  by (simp add: SOLAR_CYCLES_def)

lemma predict_cases:
  "(getYear d \<le> 2030 \<and> predictFutureSolarCycle d = SOLAR_CYCLES ! 5)
   \<or> (2030 < getYear d \<and> (\<exists>k\<ge>1. predictFutureSolarCycle d = futureCycle k
         \<and> 2030 + (k - 1) * 11 < getYear d \<and> getYear d \<le> 2030 + k * 11))"
proof (cases "getYear d \<le> 2030")
  case True
  then show ?thesis
    unfolding predictFutureSolarCycle_def last_cycle Let_def by (simp add: SOLAR_CYCLES_def)
next
  case False
  define a where "a = getYear d - 2030"
  define q where "q = (- a) div 11"
  define r where "r = (- a) mod 11"
  define k where "k = - q"
  have qr: "11 * q + r = - a" unfolding q_def r_def by (rule mult_div_mod_eq)
  have r: "0 \<le> r" "r < 11" unfolding r_def by simp_all
  have a: "0 < a" using False unfolding a_def by simp
  have "1 \<le> k" using qr r a unfolding k_def by (simp add: algebra_simps)
  moreover have "2030 + (k - 1) * 11 < getYear d"
    using qr r a unfolding k_def a_def by (simp add: algebra_simps)
  moreover have "getYear d \<le> 2030 + k * 11"
    using qr r a unfolding k_def a_def by (simp add: algebra_simps)
  moreover have "predictFutureSolarCycle d = futureCycle k"
  proof -
    have "\<lceil>real_of_int (getYear d - 2030) / 11\<rceil> = k"
      unfolding k_def q_def a_def by (rule ceil11)
    then show ?thesis
      unfolding predictFutureSolarCycle_def last_cycle Let_def futureCycle_def
      using False by simp
  qed
  ultimately have "\<exists>k\<ge>1. predictFutureSolarCycle d = futureCycle k
         \<and> 2030 + (k - 1) * 11 < getYear d \<and> getYear d \<le> 2030 + k * 11"
    by blast
  then show ?thesis using False by simp
qed

lemma find_table:
  "find (\<lambda>cycle. inCycle y cycle) SOLAR_CYCLES =
     (if 1964 \<le> y \<and> y \<le> 1976 then Some (SOLAR_CYCLES ! 0)
      else if 1976 < y \<and> y \<le> 1986 then Some (SOLAR_CYCLES ! 1)
      else if 1986 < y \<and> y \<le> 1996 then Some (SOLAR_CYCLES ! 2)
      else if 1996 < y \<and> y \<le> 2008 then Some (SOLAR_CYCLES ! 3)
      else if 2008 < y \<and> y \<le> 2019 then Some (SOLAR_CYCLES ! 4)
      else if 2019 < y \<and> y \<le> 2030 then Some (SOLAR_CYCLES ! 5)
      else None)"
  by (simp add: SOLAR_CYCLES_def inCycle_def)

lemma lookup_cases:
  "getSolarCycleForDate d \<in> set SOLAR_CYCLES \<or> (\<exists>k\<ge>1. getSolarCycleForDate d = futureCycle k)"
proof (cases "find (\<lambda>cycle. inCycle (getYear d) cycle) SOLAR_CYCLES")
  case None
  then have eq: "getSolarCycleForDate d = predictFutureSolarCycle d"
    by (simp add: getSolarCycleForDate_def)
  have "SOLAR_CYCLES ! 5 \<in> set SOLAR_CYCLES" by (simp add: SOLAR_CYCLES_def)
  then show ?thesis using predict_cases [of d] unfolding eq by metis
next
  case (Some c)
  then have "c \<in> set SOLAR_CYCLES" by (auto simp: find_Some_iff)
  then show ?thesis using Some by (simp add: getSolarCycleForDate_def)
qed

lemma table_ordered:
  "c \<in> set SOLAR_CYCLES \<Longrightarrow> startYear c < peakYear c \<and> peakYear c < endYear c"
  by (auto simp: SOLAR_CYCLES_def)

lemma cycle_length_pos: "startYear (getSolarCycleForDate d) < endYear (getSolarCycleForDate d)"
proof -
  consider "getSolarCycleForDate d \<in> set SOLAR_CYCLES"
    | k where "getSolarCycleForDate d = futureCycle k"
    using lookup_cases [of d] by blast
  then show ?thesis
  proof cases
    case 1
    then show ?thesis using table_ordered [of "getSolarCycleForDate d"] by linarith
  next
    case 2
    then show ?thesis by (simp add: futureCycle_def)
  qed
qed

lemma cycle_length_nonzero:
  "real_of_int (endYear (getSolarCycleForDate d) - startYear (getSolarCycleForDate d)) \<noteq> 0"
  using cycle_length_pos [of d] by simp

lemma sunspot_Inr: "\<exists>s. calculateSunspotNumber d x = Inr s \<and> 0 \<le> s"
proof -
  have "(0::real) \<le> js_round (max 0 y)" for y
    using js_round_ge [of 0 "max 0 y"] by simp
  then show ?thesis
    using cycle_length_nonzero [of d]
    by (simp add: calculateSunspotNumber_def js_div_def bindE_def Let_def)
qed

lemma lifespan_piece_bounds:
  fixes n :: real
  assumes "0 \<le> n" "n \<le> 200"
  shows "- 6.6 \<le> (if n < 30 then 0.5 - (n / 30) * 0.8
                    else if n < 120 then - 0.3 - ((n - 30) / 90) * 4.5
                    else - 4.8 - ((n - 120) / 80) * 1.8)
       \<and> (if n < 30 then 0.5 - (n / 30) * 0.8
            else if n < 120 then - 0.3 - ((n - 30) / 90) * 4.5
            else - 4.8 - ((n - 120) / 80) * 1.8) \<le> 0.5"
  using assms by (auto simp: field_simps)

lemma uv_bounds:
  assumes "0 \<le> s"
  shows "5 \<le> calculateUVFromSolarActivity s \<and> calculateUVFromSolarActivity s \<le> 11"
  using assms by (simp add: calculateUVFromSolarActivity_def Let_def)

lemma solar_activity_fields:
  assumes "calculateSunspotNumber d (sunspotDraw r) = Inr s"
  shows "\<exists>sa. calculateSolarActivityData d r = Inr sa
           \<and> sunspotNumber sa = s
           \<and> uvRadiationLevel sa = calculateUVFromSolarActivity s
           \<and> lifespanImpact sa =
                js_round (((if max 0 (min 200 s) < 30 then 0.5 - (max 0 (min 200 s) / 30) * 0.8
                            else if max 0 (min 200 s) < 120
                            then - 0.3 - ((max 0 (min 200 s) - 30) / 90) * 4.5
                            else - 4.8 - ((max 0 (min 200 s) - 120) / 80) * 1.8)
                           + (real (getMonth d) - 6) * 0.1) * 10) / 10"
  apply (simp only: calculateSolarActivityData_def assms bindE_def js_div_def Let_def sum.case
      cycle_length_nonzero if_False)
  apply (rule exI, rule conjI, rule refl)
  apply (simp only: SolarActivityData.select_convs simp_thms)
  done

lemma solar_activity_Inr:
  assumes "getMonth d < 12"
  shows "\<exists>sa. calculateSolarActivityData d r = Inr sa
           \<and> - 7.2 \<le> lifespanImpact sa \<and> lifespanImpact sa \<le> 1
           \<and> 5 \<le> uvRadiationLevel sa \<and> uvRadiationLevel sa \<le> 11
           \<and> 0 \<le> sunspotNumber sa"
proof -
  obtain s where s: "calculateSunspotNumber d (sunspotDraw r) = Inr s" "0 \<le> s"
    using sunspot_Inr by blast
  define n where "n = max 0 (min 200 s)"
  define imp where "imp = (if n < 30 then 0.5 - (n / 30) * 0.8
                    else if n < 120 then - 0.3 - ((n - 30) / 90) * 4.5
                    else - 4.8 - ((n - 120) / 80) * 1.8)"
  define mv where "mv = (real (getMonth d) - 6) * 0.1"
  define fin where "fin = js_round ((imp + mv) * 10) / 10"
  have n: "0 \<le> n" "n \<le> 200" unfolding n_def by simp_all
  have imp: "- 6.6 \<le> imp" "imp \<le> 0.5"
    using lifespan_piece_bounds [OF n] unfolding imp_def by simp_all
  have mv: "- 0.6 \<le> mv" "mv \<le> 0.5"
    using assms unfolding mv_def by simp_all
  have "real_of_int (- 72) \<le> (imp + mv) * 10" "(imp + mv) * 10 \<le> real_of_int 10"
    using imp mv by simp_all
  then have "real_of_int (- 72) \<le> js_round ((imp + mv) * 10)"
      "js_round ((imp + mv) * 10) \<le> real_of_int 10"
    by (simp_all only: js_round_ge js_round_le)
  then have fin: "- 7.2 \<le> fin" "fin \<le> 1" unfolding fin_def by simp_all
  obtain sa where sa: "calculateSolarActivityData d r = Inr sa" "sunspotNumber sa = s"
      "uvRadiationLevel sa = calculateUVFromSolarActivity s" "lifespanImpact sa = fin"
    using solar_activity_fields [OF s(1)] unfolding fin_def imp_def mv_def n_def by blast
  show ?thesis using sa fin uv_bounds [OF s(2)] s(2) by auto
qed

lemma cycle_cases:
  assumes "c \<in> set SOLAR_CYCLES \<union> range predictFutureSolarCycle"
  shows "c \<in> set SOLAR_CYCLES \<or> (\<exists>k\<ge>1. c = futureCycle k)"
proof -
  have "SOLAR_CYCLES ! 5 \<in> set SOLAR_CYCLES" by (simp add: SOLAR_CYCLES_def)
  then show ?thesis using assms predict_cases by (metis UnE rangeE)
qed

lemma table_span:
  assumes "c \<in> set SOLAR_CYCLES"
  shows "1964 \<le> startYear c \<and> endYear c \<le> 2030"
  using assms by (auto simp: SOLAR_CYCLES_def)

lemma table_overlap:
  assumes "c1 \<in> set SOLAR_CYCLES" "c2 \<in> set SOLAR_CYCLES" "c1 \<noteq> c2"
    "inCycle y c1" "inCycle y c2"
  shows "(y = endYear c1 \<and> y = startYear c2) \<or> (y = endYear c2 \<and> y = startYear c1)"
  using assms by (auto simp: SOLAR_CYCLES_def inCycle_def)

lemma future_overlap:
  assumes "1 \<le> k1" "1 \<le> k2" "futureCycle k1 \<noteq> futureCycle k2"
    "inCycle y (futureCycle k1)" "inCycle y (futureCycle k2)"
  shows "(y = endYear (futureCycle k1) \<and> y = startYear (futureCycle k2))
       \<or> (y = endYear (futureCycle k2) \<and> y = startYear (futureCycle k1))"
proof -
  have "k1 \<noteq> k2" using assms(3) by auto
  then show ?thesis
    using assms(4,5) by (auto simp: futureCycle_def inCycle_def)
qed

lemma mixed_overlap:
  assumes "c1 \<in> set SOLAR_CYCLES" "1 \<le> k" "inCycle y c1" "inCycle y (futureCycle k)"
  shows "y = endYear c1 \<and> y = startYear (futureCycle k)"
  using assms table_span [OF assms(1)] by (auto simp: futureCycle_def inCycle_def)

lemma lookup_in_cycle:
  assumes "1964 \<le> getYear d"
  shows "inCycle (getYear d) (getSolarCycleForDate d)"
proof (cases "find (\<lambda>cycle. inCycle (getYear d) cycle) SOLAR_CYCLES")
  case None
  then have late: "2030 < getYear d" using assms by (simp add: find_table split: if_splits)
  have "getSolarCycleForDate d = predictFutureSolarCycle d"
    using None by (simp add: getSolarCycleForDate_def)
  then show ?thesis
    using predict_cases [of d] late by (auto simp: futureCycle_def inCycle_def)
next
  case (Some c)
  then have "inCycle (getYear d) c" by (auto simp: find_Some_iff)
  then show ?thesis using Some by (simp add: getSolarCycleForDate_def)
qed

lemma lookup_member:
  "getSolarCycleForDate d \<in> set SOLAR_CYCLES \<union> range predictFutureSolarCycle"
proof (cases "find (\<lambda>cycle. inCycle (getYear d) cycle) SOLAR_CYCLES")
  case None
  then show ?thesis by (simp add: getSolarCycleForDate_def)
next
  case (Some c)
  then have "c \<in> set SOLAR_CYCLES" by (auto simp: find_Some_iff)
  then show ?thesis using Some by (simp add: getSolarCycleForDate_def)
qed

lemma lookup_start:
  assumes "1964 \<le> getYear d"
  shows "startYear (getSolarCycleForDate d) < getYear d \<or> getYear d = 1964"
proof (cases "getYear d \<le> 2030")
  case True
  then show ?thesis
    using assms
    by (simp add: getSolarCycleForDate_def find_table) (auto simp: SOLAR_CYCLES_def)
next
  case False
  then have "find (\<lambda>cycle. inCycle (getYear d) cycle) SOLAR_CYCLES = None"
    by (simp add: find_table)
  then have "getSolarCycleForDate d = predictFutureSolarCycle d"
    by (simp add: getSolarCycleForDate_def)
  then show ?thesis
    using predict_cases [of d] False by (auto simp: futureCycle_def)
qed

lemma cycle_end_lower:
  assumes "c \<in> set SOLAR_CYCLES \<union> range predictFutureSolarCycle"
  shows "1976 \<le> endYear c"
  using cycle_cases [OF assms] by (auto simp: SOLAR_CYCLES_def futureCycle_def)

section \<open>Properties of the seasonal risk model\<close>

lemma table_cases:
  "1 \<le> k \<Longrightarrow> k \<le> 12 \<Longrightarrow>
     k = 1 \<or> k = 2 \<or> k = 3 \<or> k = 4 \<or> k = 5 \<or> k = 6 \<or> k = 7 \<or> k = 8 \<or> k = 9
     \<or> k = 10 \<or> k = 11 \<or> k = (12::nat)"
  by arith

lemma table_defined:
  assumes "1 \<le> k" "k \<le> 12"
  shows "\<exists>e. NORTHERN_HEMISPHERE_DISEASE_RISKS k = Some e
           \<and> 0.82 \<le> infectious e \<and> infectious e \<le> 1.15"
  using table_cases [OF assms]
  by (auto simp: NORTHERN_HEMISPHERE_DISEASE_RISKS_def mkRisk_def)

lemma adjusted_month_range:
  assumes "getMonth d < 12"
  shows "1 \<le> (if isNorthernHemisphere lat then getMonth d + 1 else ((getMonth d + 1 + 5) mod 12) + 1)"
    and "(if isNorthernHemisphere lat then getMonth d + 1 else ((getMonth d + 1 + 5) mod 12) + 1) \<le> 12"
  using assms by auto

lemma infectious_Inr:
  assumes "getMonth d < 12"
  shows "\<exists>v. calculateInfectiousRisk d loc = Inr v \<and> 0.82 \<le> v \<and> v \<le> 1.15"
proof -
  obtain e where "NORTHERN_HEMISPHERE_DISEASE_RISKS
      (if isNorthernHemisphere (latitude loc) then getMonth d + 1
       else ((getMonth d + 1 + 5) mod 12) + 1) = Some e"
    "0.82 \<le> infectious e" "infectious e \<le> 1.15"
    using table_defined [OF adjusted_month_range [OF assms]] by blast
  then show ?thesis
    by (simp only: calculateInfectiousRisk_def Let_def option.case) simp
qed

lemma disease_Inr:
  assumes "getMonth d < 12"
  shows "\<exists>dr. calculateDiseaseRisks d loc = Inr dr"
proof -
  obtain e where "NORTHERN_HEMISPHERE_DISEASE_RISKS
      (if isNorthernHemisphere (latitude loc) then getMonth d + 1
       else ((getMonth d + 1 + 5) mod 12) + 1) = Some e"
    using table_defined [OF adjusted_month_range [OF assms]] by blast
  then show ?thesis
    by (simp only: calculateDiseaseRisks_def Let_def option.case) simp
qed

lemma own_cutoff_values:
  assumes "map_of [(''US'', 9), (''UK'', 9), (''Canada'', 9), (''Australia'', 1), (''Germany'', 6),
      (''France'', 9), (''Japan'', 4), (''default'', 9::int)] key = Some v"
  shows "v = 1 \<or> v = 4 \<or> v = 6 \<or> v = 9"
proof -
  have "(key, v) \<in> set [(''US'', 9), (''UK'', 9), (''Canada'', 9), (''Australia'', 1), (''Germany'', 6),
      (''France'', 9), (''Japan'', 4), (''default'', 9::int)]"
    using assms by (rule map_of_SomeD)
  then show ?thesis by auto
qed

lemma cutoff_values:
  assumes "schoolYearCutoffs key = Some (NumberValue v)"
  shows "v = 1 \<or> v = 4 \<or> v = 6 \<or> v = 9"
  using assms own_cutoff_values [of key]
  by (auto simp: schoolYearCutoffs_def split: option.splits if_splits)

lemma cutoff_default: "schoolYearCutoffs ''default'' = Some (NumberValue 9)"
  by (simp add: schoolYearCutoffs_def)

lemma cutoff_inherited:
  "schoolYearCutoffs key = Some PrototypeMember \<longleftrightarrow> key \<in> set objectPrototypeKeys"
proof
  assume "schoolYearCutoffs key = Some PrototypeMember"
  then show "key \<in> set objectPrototypeKeys"
    by (auto simp: schoolYearCutoffs_def split: option.splits if_splits)
next
  assume k: "key \<in> set objectPrototypeKeys"
  then have "map_of [(''US'', 9), (''UK'', 9), (''Canada'', 9), (''Australia'', 1), (''Germany'', 6),
      (''France'', 9), (''Japan'', 4), (''default'', 9::int)] key = None"
    by (auto simp: objectPrototypeKeys_def)
  then show "schoolYearCutoffs key = Some PrototypeMember"
    using k by (simp add: schoolYearCutoffs_def)
qed

lemma relative_age_inherited:
  assumes "inheritedKey c"
  shows "calculateRelativeAgeEffect d c = NaN"
proof -
  obtain key where key: "c = Some key" "key \<in> set objectPrototypeKeys"
    using assms by (auto simp: inheritedKey_def split: option.splits)
  have "schoolYearCutoffs key = Some PrototypeMember" using key(2) by (simp add: cutoff_inherited)
  then show ?thesis
    unfolding key(1) by (simp add: calculateRelativeAgeEffect_def)
qed

lemma relative_age_number:
  assumes "\<not> inheritedKey c"
  shows "\<exists>v. calculateRelativeAgeEffect d c = Num v \<and> 0 \<le> v \<and> v \<le> 100"
proof -
  define cn where "cn = (case c of None \<Rightarrow> ''US'' | Some x \<Rightarrow> x)"
  define cutoffMonth where "cutoffMonth = (case schoolYearCutoffs cn of
                           None \<Rightarrow> schoolYearCutoffs ''default''
                         | Some (NumberValue c) \<Rightarrow>
                             (if c = 0 then schoolYearCutoffs ''default'' else Some (NumberValue c))
                         | Some PrototypeMember \<Rightarrow> Some PrototypeMember)"
  have "cn \<notin> set objectPrototypeKeys"
    using assms unfolding cn_def inheritedKey_def
    by (cases c) (simp_all add: objectPrototypeKeys_def)
  then have "schoolYearCutoffs cn \<noteq> Some PrototypeMember" by (simp add: cutoff_inherited)
  then have "\<exists>v. cutoffMonth = Some (NumberValue v) \<and> (v = 1 \<or> v = 4 \<or> v = 6 \<or> v = 9)"
    unfolding cutoffMonth_def using cutoff_values [of cn]
    by (auto simp: cutoff_default split: option.splits property.splits)
  then obtain v where v: "cutoffMonth = Some (NumberValue v)" "1 \<le> v" "v \<le> 9" by auto
  have "0 \<le> js_rem (int (getMonth d + 1) - v + 12) 12"
    using v by (simp add: js_rem_def)
  then have "0 \<le> max 0 (100 - (real_of_int (js_rem (int (getMonth d + 1) - v + 12) 12) * 8.33))"
    "max 0 (100 - (real_of_int (js_rem (int (getMonth d + 1) - v + 12) 12) * 8.33)) \<le> 100"
    by simp_all
  moreover have "calculateRelativeAgeEffect d c
      = Num (max 0 (100 - (real_of_int (js_rem (int (getMonth d + 1) - v + 12) 12) * 8.33)))"
    using v(1) unfolding cutoffMonth_def cn_def
    by (simp only: calculateRelativeAgeEffect_def Let_def option.case property.case)
  ultimately show ?thesis by blast
qed

lemma vitamin_bounds:
  "0 \<le> calculateVitaminDSynthesis loc d" "calculateVitaminDSynthesis loc d \<le> 100"
  by (simp_all add: calculateVitaminDSynthesis_def Let_def)

lemma seasonal_fields:
  assumes "calculateInfectiousRisk d loc = Inr ir"
    and "calculateDiseaseRisks d loc = Inr dr"
  shows "\<exists>sr. calculateSeasonalRisk d loc = Inr sr
           \<and> vitaminDScore sr = js_round (calculateVitaminDSynthesis loc d)
           \<and> infectiousRisk sr = js_round (max 0 ((ir - 0.8) * 500))
           \<and> relativeAgeAdvantage sr
               = num_lift js_round (calculateRelativeAgeEffect d (country loc))
           \<and> overallSeasonalScore sr = num_lift (\<lambda>relativeAgeValue. js_round (
                  (calculateVitaminDSynthesis loc d * 0.3) +
                  ((100 - min 100 (max 0 ((ir - 0.8) * 500))) * 0.25) +
                  (relativeAgeValue * 0.15) +
                  ((100 - min 100 (max 0 ((cardiovascular dr - 0.9) * 500))) * 0.15) +
                  ((100 - min 100 (max 0 ((mentalHealth dr - 0.85) * 400))) * 0.10) +
                  ((100 - min 100 (max 0 (\<bar>autoimmune dr - 1.0\<bar> * 1000))) * 0.05)))
                 (calculateRelativeAgeEffect d (country loc))"
  apply (simp only: calculateSeasonalRisk_def assms bindE_def Let_def sum.case)
  apply (rule exI, rule conjI, rule refl)
  apply (simp only: SeasonalRiskData.select_convs simp_thms)
  done

lemma weighted_seasonal_bounds:
  fixes v a r c m u :: real
  assumes "0 \<le> v" "v \<le> 100" "0 \<le> r" "r \<le> 100"
  shows "0 \<le> (v * 0.3) + ((100 - min 100 (max 0 a)) * 0.25) + (r * 0.15)
              + ((100 - min 100 (max 0 c)) * 0.15) + ((100 - min 100 (max 0 m)) * 0.10)
              + ((100 - min 100 (max 0 u)) * 0.05)"
    and "(v * 0.3) + ((100 - min 100 (max 0 a)) * 0.25) + (r * 0.15)
              + ((100 - min 100 (max 0 c)) * 0.15) + ((100 - min 100 (max 0 m)) * 0.10)
              + ((100 - min 100 (max 0 u)) * 0.05) \<le> 100"
proof -
  have b: "0 \<le> 100 - min 100 (max 0 x)" "100 - min 100 (max 0 x) \<le> 100" for x :: real
    by simp_all
  have lo: "0 \<le> v * 0.3 + p * 0.25 + r * 0.15 + q * 0.15 + s * 0.10 + t * 0.05"
    if "0 \<le> p" "0 \<le> q" "0 \<le> s" "0 \<le> t" for p q s t :: real
    using that assms by simp
  have hi: "v * 0.3 + p * 0.25 + r * 0.15 + q * 0.15 + s * 0.10 + t * 0.05 \<le> 100"
    if "p \<le> 100" "q \<le> 100" "s \<le> 100" "t \<le> 100" for p q s t :: real
    using that assms by simp
  show "0 \<le> (v * 0.3) + ((100 - min 100 (max 0 a)) * 0.25) + (r * 0.15)
              + ((100 - min 100 (max 0 c)) * 0.15) + ((100 - min 100 (max 0 m)) * 0.10)
              + ((100 - min 100 (max 0 u)) * 0.05)"
    by (rule lo [OF b(1) b(1) b(1) b(1)])
  show "(v * 0.3) + ((100 - min 100 (max 0 a)) * 0.25) + (r * 0.15)
              + ((100 - min 100 (max 0 c)) * 0.15) + ((100 - min 100 (max 0 m)) * 0.10)
              + ((100 - min 100 (max 0 u)) * 0.05) \<le> 100"
    by (rule hi [OF b(2) b(2) b(2) b(2)])
qed

lemma seasonal_Inr:
  assumes "getMonth d < 12"
  shows "\<exists>sr. calculateSeasonalRisk d loc = Inr sr
           \<and> 0 \<le> vitaminDScore sr \<and> vitaminDScore sr \<le> 100
           \<and> 10 \<le> infectiousRisk sr \<and> infectiousRisk sr \<le> 175
           \<and> num_within 0 100 (relativeAgeAdvantage sr)
           \<and> num_within 0 100 (overallSeasonalScore sr)
           \<and> (inheritedKey (country loc) \<longrightarrow>
                 relativeAgeAdvantage sr = NaN \<and> overallSeasonalScore sr = NaN)
           \<and> (\<not> inheritedKey (country loc) \<longrightarrow>
                 (\<exists>a. relativeAgeAdvantage sr = Num a) \<and> (\<exists>s. overallSeasonalScore sr = Num s))"
proof -
  obtain ir where ir: "calculateInfectiousRisk d loc = Inr ir" "0.82 \<le> ir" "ir \<le> 1.15"
    using infectious_Inr [OF assms] by blast
  obtain dr where dr: "calculateDiseaseRisks d loc = Inr dr"
    using disease_Inr [OF assms] by blast
  define w where "w = (\<lambda>relativeAgeValue. (calculateVitaminDSynthesis loc d * 0.3) +
                  ((100 - min 100 (max 0 ((ir - 0.8) * 500))) * 0.25) +
                  (relativeAgeValue * 0.15) +
                  ((100 - min 100 (max 0 ((cardiovascular dr - 0.9) * 500))) * 0.15) +
                  ((100 - min 100 (max 0 ((mentalHealth dr - 0.85) * 400))) * 0.10) +
                  ((100 - min 100 (max 0 (\<bar>autoimmune dr - 1.0\<bar> * 1000))) * 0.05))"
  obtain sr where sr: "calculateSeasonalRisk d loc = Inr sr"
      "vitaminDScore sr = js_round (calculateVitaminDSynthesis loc d)"
      "infectiousRisk sr = js_round (max 0 ((ir - 0.8) * 500))"
      "relativeAgeAdvantage sr = num_lift js_round (calculateRelativeAgeEffect d (country loc))"
      "overallSeasonalScore sr
         = num_lift (\<lambda>relativeAgeValue. js_round (w relativeAgeValue))
             (calculateRelativeAgeEffect d (country loc))"
    using seasonal_fields [OF ir(1) dr] unfolding w_def by blast
  have v: "real_of_int 0 \<le> calculateVitaminDSynthesis loc d"
      "calculateVitaminDSynthesis loc d \<le> real_of_int 100"
    using vitamin_bounds by simp_all
  have 2: "0 \<le> js_round (calculateVitaminDSynthesis loc d)"
      "js_round (calculateVitaminDSynthesis loc d) \<le> 100"
    using js_round_ge [OF v(1)] js_round_le [OF v(2)] by simp_all
  have i: "real_of_int 10 \<le> max 0 ((ir - 0.8) * 500)" "max 0 ((ir - 0.8) * 500) \<le> real_of_int 175"
    using ir by simp_all
  have 4: "10 \<le> js_round (max 0 ((ir - 0.8) * 500))" "js_round (max 0 ((ir - 0.8) * 500)) \<le> 175"
    using js_round_ge [OF i(1)] js_round_le [OF i(2)] by simp_all
  have rest: "num_within 0 100 (relativeAgeAdvantage sr)
           \<and> num_within 0 100 (overallSeasonalScore sr)
           \<and> (inheritedKey (country loc) \<longrightarrow>
                 relativeAgeAdvantage sr = NaN \<and> overallSeasonalScore sr = NaN)
           \<and> (\<not> inheritedKey (country loc) \<longrightarrow>
                 (\<exists>a. relativeAgeAdvantage sr = Num a) \<and> (\<exists>s. overallSeasonalScore sr = Num s))"
  proof (cases "inheritedKey (country loc)")
    case True
    then have "calculateRelativeAgeEffect d (country loc) = NaN"
      by (rule relative_age_inherited)
    then show ?thesis
      using True unfolding sr(4,5) by (simp add: num_lift_def num_within_def)
  next
    case False
    then obtain ra where ra: "calculateRelativeAgeEffect d (country loc) = Num ra"
        "0 \<le> ra" "ra \<le> 100"
      using relative_age_number by blast
    have "0 \<le> w ra" unfolding w_def by (rule weighted_seasonal_bounds(1) [OF vitamin_bounds ra(2,3)])
    moreover have "w ra \<le> 100"
      unfolding w_def by (rule weighted_seasonal_bounds(2) [OF vitamin_bounds ra(2,3)])
    ultimately have 1: "0 \<le> js_round (w ra)" "js_round (w ra) \<le> 100"
      using js_round_ge [of 0 "w ra"] js_round_le [of "w ra" 100] by simp_all
    have 3: "0 \<le> js_round ra" "js_round ra \<le> 100"
      using js_round_ge [of 0 ra] js_round_le [of ra 100] ra(2,3) by simp_all
    show ?thesis
      using False 1 3 unfolding sr(4,5) ra(1) by (simp add: num_lift_def num_within_def)
  qed
  show ?thesis using sr(1,2,3) 2 4 rest by auto
qed

section \<open>Properties of the timing engine\<close>

lemma format_valid: "valid_date d \<Longrightarrow> format_MMMM d = Inr (monthNames ! getMonth d)"
  by (simp add: format_MMMM_def)

lemma vitaminD_recs_Inr:
  "valid_date d \<Longrightarrow> \<exists>xs. vitaminDRecommendations sr d = Inr xs"
  by (simp add: vitaminDRecommendations_def format_valid bindE_def)

lemma infection_recs_Inr:
  "valid_date d \<Longrightarrow> \<exists>xs. infectionRecommendations sr d = Inr xs"
  by (simp add: infectionRecommendations_def format_valid bindE_def)

lemma mental_health_values:
  "calculateMentalHealthRisk s = 1.0 \<or> calculateMentalHealthRisk s = 1.3"
  by (simp add: calculateMentalHealthRisk_def Let_def)

lemma mental_health_recs_empty:
  "mentalHealthRecommendations (calculateMentalHealthRisk s) d = Inr []"
  using mental_health_values [of s] by (auto simp: mentalHealthRecommendations_def)

lemma seasonal_recs_Inr:
  "calculateSeasonalRisk d loc = Inr sr \<Longrightarrow> \<exists>xs. getSeasonalRecommendations d loc = Inr xs"
  by (simp add: getSeasonalRecommendations_def bindE_def)

lemma timing_fields:
  assumes "calculateSolarActivityData d r = Inr sa"
    and "calculateSeasonalRisk d loc = Inr sr"
    and "vitaminDRecommendations sr d = Inr vd"
    and "infectionRecommendations sr d = Inr irs"
    and "mentalHealthRecommendations (calculateMentalHealthRisk (sunspotNumber sa)) d = Inr mh"
    and "getSeasonalRecommendations d loc = Inr seas"
  shows "\<exists>res. calculateOptimalTiming loc d r = Inr res
           \<and> birthDate res = d
           \<and> overallScore res = num_lift (\<lambda>seasonalValue. js_round (
                (max 0 (100 - \<bar>lifespanImpact sa\<bar> * 15) * WEIGHTS_solar) +
                (seasonalValue * WEIGHTS_seasonal) +
                (max 0 (100 - \<bar>latitude loc\<bar>) * WEIGHTS_geographic) +
                (75 * WEIGHTS_environmental))) (overallSeasonalScore sr)
           \<and> riskFactors res = solarFactor sa @ uvFactor sa @ vitaminDFactor sr
                @ infectionFactor sr @ academicFactor sr @ latitudeFactor loc
                @ environmentalFactor d
           \<and> recommendations res = js_sort recommendationOrder (uniq []
                (solarRecommendations sa @ vd @ irs @ schoolRecommendations sr
                 @ latitudeRecommendations loc @ mh @ seas
                 @ closingRecommendation (num_lift (\<lambda>seasonalValue. js_round (
                    (max 0 (100 - \<bar>lifespanImpact sa\<bar> * 15) * WEIGHTS_solar) +
                    (seasonalValue * WEIGHTS_seasonal) +
                    (max 0 (100 - \<bar>latitude loc\<bar>) * WEIGHTS_geographic) +
                    (75 * WEIGHTS_environmental))) (overallSeasonalScore sr))))
           \<and> solar_mentalHealthMultiplier (solarData res)
                = calculateMentalHealthRisk (sunspotNumber sa)
           \<and> seasonalData res =
                \<lparr> seasonal_vitaminDScore = vitaminDScore sr,
                  seasonal_infectiousRisk = infectiousRisk sr,
                  seasonal_relativeAgeAdvantage = relativeAgeAdvantage sr,
                  seasonal_overallSeasonalScore = overallSeasonalScore sr \<rparr>"
  apply (simp only: calculateOptimalTiming_def assms bindE_def Let_def sum.case)
  apply (rule exI, rule conjI, rule refl)
  apply (simp only: OptimalTimingResult.select_convs SolarDataSummary.select_convs simp_thms)
  done

lemma timing_Inr:
  assumes "valid_date d"
  shows "\<exists>sa sr vd irs seas.
           calculateSolarActivityData d r = Inr sa
         \<and> - 7.2 \<le> lifespanImpact sa \<and> lifespanImpact sa \<le> 1
         \<and> 5 \<le> uvRadiationLevel sa \<and> uvRadiationLevel sa \<le> 11
         \<and> calculateSeasonalRisk d loc = Inr sr
         \<and> 0 \<le> vitaminDScore sr \<and> vitaminDScore sr \<le> 100
         \<and> 10 \<le> infectiousRisk sr \<and> infectiousRisk sr \<le> 175
         \<and> num_within 0 100 (relativeAgeAdvantage sr)
         \<and> num_within 0 100 (overallSeasonalScore sr)
         \<and> (inheritedKey (country loc) \<longrightarrow> overallSeasonalScore sr = NaN)
         \<and> (\<not> inheritedKey (country loc) \<longrightarrow> (\<exists>s. overallSeasonalScore sr = Num s))
         \<and> vitaminDRecommendations sr d = Inr vd
         \<and> infectionRecommendations sr d = Inr irs
         \<and> mentalHealthRecommendations (calculateMentalHealthRisk (sunspotNumber sa)) d = Inr []
         \<and> getSeasonalRecommendations d loc = Inr seas"
proof -
  have m: "getMonth d < 12" using assms by (simp add: valid_date_def)
  obtain sa where sa: "calculateSolarActivityData d r = Inr sa"
      "- 7.2 \<le> lifespanImpact sa" "lifespanImpact sa \<le> 1"
      "5 \<le> uvRadiationLevel sa" "uvRadiationLevel sa \<le> 11"
    using solar_activity_Inr [OF m] by blast
  obtain sr where sr: "calculateSeasonalRisk d loc = Inr sr"
      "0 \<le> vitaminDScore sr" "vitaminDScore sr \<le> 100"
      "10 \<le> infectiousRisk sr" "infectiousRisk sr \<le> 175"
      "num_within 0 100 (relativeAgeAdvantage sr)"
      "num_within 0 100 (overallSeasonalScore sr)"
      "inheritedKey (country loc) \<longrightarrow> overallSeasonalScore sr = NaN"
      "\<not> inheritedKey (country loc) \<longrightarrow> (\<exists>s. overallSeasonalScore sr = Num s)"
    using seasonal_Inr [OF m, of loc] by blast
  obtain vd where vd: "vitaminDRecommendations sr d = Inr vd"
    using vitaminD_recs_Inr [OF assms] by blast
  obtain irs where irs: "infectionRecommendations sr d = Inr irs"
    using infection_recs_Inr [OF assms] by blast
  obtain seas where seas: "getSeasonalRecommendations d loc = Inr seas"
    using seasonal_recs_Inr [OF sr(1)] by blast
  show ?thesis
    using sa sr vd irs seas mental_health_recs_empty by blast
qed

lemma set_sort_insert: "set (sort_insert cmp x xs) = insert x (set xs)"
  by (induction xs) auto


lemma set_foldl_insert:
  "set (foldl (\<lambda>sorted x. sort_insert cmp x sorted) acc xs) = set acc \<union> set xs"
  by (induction xs arbitrary: acc) (auto simp: set_sort_insert)


lemma set_js_sort: "set (js_sort cmp xs) = set xs"
  by (simp add: js_sort_def set_foldl_insert)


lemma set_uniq: "set (uniq seen xs) = set xs - set seen"
  by (induction xs arbitrary: seen) auto

lemma sort_insert_skip:
  assumes "\<forall>y\<in>set ys. \<not> cmp x y < 0"
  shows "sort_insert cmp x (ys @ zs) = ys @ sort_insert cmp x zs"
  using assms by (induction ys) auto

lemma sort_insert_marked_first:
  assumes neg: "\<And>a b. P a \<Longrightarrow> cmp a b < 0"
    and pos: "\<And>a b. \<not> P a \<Longrightarrow> P b \<Longrightarrow> \<not> cmp a b < 0"
    and xs: "marked_first P xs"
  shows "marked_first P (sort_insert cmp x xs)"
proof -
  obtain ys zs where p: "xs = ys @ zs" "\<forall>x\<in>set ys. P x" "\<forall>x\<in>set zs. \<not> P x"
    using xs unfolding marked_first_def by blast
  show ?thesis
  proof (cases "P x")
    case True
    have "sort_insert cmp x xs = x # xs"
      using neg [OF True] by (cases xs) auto
    then have "sort_insert cmp x xs = (x # ys) @ zs"
      using p(1) by simp
    moreover have "\<forall>y\<in>set (x # ys). P y" using True p(2) by simp
    ultimately show ?thesis unfolding marked_first_def using p(3) by blast
  next
    case False
    then have "\<forall>y\<in>set ys. \<not> cmp x y < 0" using pos p(2) by blast
    then have "sort_insert cmp x xs = ys @ sort_insert cmp x zs"
      unfolding p(1) by (rule sort_insert_skip)
    moreover have "\<forall>y\<in>set (sort_insert cmp x zs). \<not> P y"
      using False p(3) by (simp add: set_sort_insert)
    ultimately show ?thesis unfolding marked_first_def using p(2) by blast
  qed
qed

lemma foldl_marked_first:
  assumes neg: "\<And>a b. P a \<Longrightarrow> cmp a b < 0"
    and pos: "\<And>a b. \<not> P a \<Longrightarrow> P b \<Longrightarrow> \<not> cmp a b < 0"
  shows "marked_first P acc \<Longrightarrow>
           marked_first P (foldl (\<lambda>sorted x. sort_insert cmp x sorted) acc xs)"
proof (induction xs arbitrary: acc)
  case Nil
  then show ?case by simp
next
  case (Cons x xs)
  have "marked_first P (sort_insert cmp x acc)"
    using neg pos Cons.prems by (rule sort_insert_marked_first)
  then show ?case using Cons.IH by simp
qed

lemma js_sort_marked_first:
  assumes "\<And>a b. P a \<Longrightarrow> cmp a b < 0"
    and "\<And>a b. \<not> P a \<Longrightarrow> P b \<Longrightarrow> \<not> cmp a b < 0"
  shows "marked_first P (js_sort cmp xs)"
  unfolding js_sort_def
  by (rule foldl_marked_first [OF assms]) (simp_all add: marked_first_def)

lemma marked_first_index:
  assumes "marked_first P xs" "i < length xs" "j < length xs" "P (xs ! i)" "\<not> P (xs ! j)"
  shows "i < j"
proof -
  obtain ys zs where p: "xs = ys @ zs" "\<forall>x\<in>set ys. P x" "\<forall>x\<in>set zs. \<not> P x"
    using assms(1) unfolding marked_first_def by blast
  have "i < length ys"
  proof (rule ccontr)
    assume "\<not> i < length ys"
    then have "xs ! i \<in> set zs" using assms(2) p(1) by (simp add: nth_append)
    then show False using p(3) assms(4) by blast
  qed
  moreover have "length ys \<le> j"
  proof (rule ccontr)
    assume "\<not> length ys \<le> j"
    then have "xs ! j \<in> set ys" using p(1) by (simp add: nth_append)
    then show False using p(2) assms(5) by blast
  qed
  ultimately show ?thesis by simp
qed

lemma recommendations_marked_first:
  "marked_first (\<lambda>s. str_includes s criticalMarker) (js_sort recommendationOrder xs)"
  by (rule js_sort_marked_first) (simp_all add: recommendationOrder_def)

lemma solar_recs_no_message: "mentalHealthMessage \<notin> set (solarRecommendations sa)"
  by (simp add: solarRecommendations_def warningSign_def)

lemma vitaminD_recs_no_message:
  assumes "valid_date d" "vitaminDRecommendations sr d = Inr xs"
  shows "mentalHealthMessage \<notin> set xs"
  using assms
  by (auto simp: vitaminDRecommendations_def format_valid bindE_def warningSign_def
      split: if_splits)

lemma infection_recs_no_message:
  assumes "valid_date d" "infectionRecommendations sr d = Inr xs"
  shows "mentalHealthMessage \<notin> set xs"
  using assms
  by (auto simp: infectionRecommendations_def format_valid bindE_def warningSign_def
      split: if_splits)

lemma school_recs_no_message: "mentalHealthMessage \<notin> set (schoolRecommendations sr)"
  by (simp add: schoolRecommendations_def)

lemma latitude_recs_no_message: "mentalHealthMessage \<notin> set (latitudeRecommendations loc)"
  by (simp add: latitudeRecommendations_def)

lemma closing_no_message: "mentalHealthMessage \<notin> set (closingRecommendation s)"
  by (simp add: closingRecommendation_def)

lemma seasonal_recs_no_message:
  assumes "getSeasonalRecommendations d loc = Inr xs"
  shows "mentalHealthMessage \<notin> set xs"
proof (cases "calculateSeasonalRisk d loc")
  case (Inl e)
  then show ?thesis using assms by (simp add: getSeasonalRecommendations_def bindE_def)
next
  case (Inr sr)
  then show ?thesis
    using assms by (auto simp: getSeasonalRecommendations_def bindE_def)
qed

lemma js_round_between:
  assumes "real_of_int a \<le> x" "x \<le> real_of_int b"
  shows "real_of_int a \<le> js_round x \<and> js_round x \<le> real_of_int b"
  using js_round_ge [OF assms(1)] js_round_le [OF assms(2)] by simp

lemma solar_factor_impact:
  assumes "- 7.2 \<le> lifespanImpact sa" "lifespanImpact sa \<le> 1" "f \<in> set (solarFactor sa)"
  shows "- 100 \<le> impact f \<and> impact f \<le> 100"
proof -
  have a: "real_of_int 0 \<le> \<bar>lifespanImpact sa\<bar> * 12" "\<bar>lifespanImpact sa\<bar> * 12 \<le> real_of_int 87"
    using assms(1,2) by (simp_all add: abs_le_iff)
  have b: "real_of_int (- 15) \<le> lifespanImpact sa * 15" "lifespanImpact sa * 15 \<le> real_of_int 15"
    if "lifespanImpact sa > 0.5"
    using assms(2) that by simp_all
  have c: "real_of_int (- 5) \<le> lifespanImpact sa * 5" "lifespanImpact sa * 5 \<le> real_of_int 5"
    if "\<not> lifespanImpact sa < - 1"
    using assms(2) that by simp_all
  show ?thesis
    using assms(3) js_round_between [OF a] js_round_between [OF b] js_round_between [OF c]
    by (auto simp: solarFactor_def split: if_splits)
qed

lemma uv_factor_impact:
  assumes "5 \<le> uvRadiationLevel sa" "uvRadiationLevel sa \<le> 11" "f \<in> set (uvFactor sa)"
  shows "- 100 \<le> impact f \<and> impact f \<le> 100"
proof -
  have a: "real_of_int (- 5) \<le> (uvRadiationLevel sa - 6) * 5"
      "(uvRadiationLevel sa - 6) * 5 \<le> real_of_int 25"
    using assms(1,2) by simp_all
  show ?thesis
    using assms(3) js_round_between [OF a]
    by (auto simp: uvFactor_def Let_def split: if_splits)
qed

lemma vitaminD_factor_impact:
  assumes "0 \<le> vitaminDScore sr" "vitaminDScore sr \<le> 100" "f \<in> set (vitaminDFactor sr)"
  shows "- 100 \<le> impact f \<and> impact f \<le> 100"
proof -
  have a: "real_of_int (- 30) \<le> (vitaminDScore sr - 60) * 0.5"
      "(vitaminDScore sr - 60) * 0.5 \<le> real_of_int 20"
    using assms(1,2) by simp_all
  show ?thesis
    using assms(3) js_round_between [OF a]
    by (auto simp: vitaminDFactor_def Let_def)
qed

lemma infection_factor_impact:
  assumes "10 \<le> infectiousRisk sr" "infectiousRisk sr \<le> 175" "f \<in> set (infectionFactor sr)"
  shows "- 100 \<le> impact f \<and> impact f \<le> 100"
proof -
  have a: "real_of_int (- 24) \<le> (infectiousRisk sr - 50) * 0.6"
      "(infectiousRisk sr - 50) * 0.6 \<le> real_of_int 75"
    using assms(1,2) by simp_all
  show ?thesis
    using assms(3) js_round_between [OF a]
    by (auto simp: infectionFactor_def Let_def split: if_splits)
qed

lemma academic_factor_impact:
  assumes "num_within 0 100 (relativeAgeAdvantage sr)" "f \<in> set (academicFactor sr)"
  shows "- 100 \<le> impact f \<and> impact f \<le> 100"
proof (cases "relativeAgeAdvantage sr")
  case NaN
  then show ?thesis using assms(2) by (simp add: academicFactor_def)
next
  case (Num advantage)
  then have "0 \<le> advantage" "advantage \<le> 100"
    using assms(1) by (simp_all add: num_within_def)
  then have a: "real_of_int (- 40) \<le> (advantage - 50) * 0.8"
      "(advantage - 50) * 0.8 \<le> real_of_int 40"
    by simp_all
  show ?thesis
    using assms(2) Num js_round_between [OF a]
    by (auto simp: academicFactor_def split: if_splits)
qed

lemma latitude_factor_impact:
  assumes "- 90 \<le> latitude loc" "latitude loc \<le> 90" "f \<in> set (latitudeFactor loc)"
  shows "- 100 \<le> impact f \<and> impact f \<le> 100"
proof -
  have a: "real_of_int (- 33) \<le> (35 - \<bar>latitude loc\<bar>) * 0.6"
      "(35 - \<bar>latitude loc\<bar>) * 0.6 \<le> real_of_int 21"
    using assms(1,2) by simp_all
  show ?thesis
    using assms(3) js_round_between [OF a]
    by (auto simp: latitudeFactor_def Let_def)
qed

lemma environmental_factor_impact:
  assumes "f \<in> set (environmentalFactor d)"
  shows "- 100 \<le> impact f \<and> impact f \<le> 100"
  using assms by (auto simp: environmentalFactor_def Let_def)









lemma timing_parts:
  assumes "valid_date d" "calculateOptimalTiming loc d r = Inr res"
    "calculateSeasonalRisk d loc = Inr sr" "vitaminDRecommendations sr d = Inr vd"
  shows "set (environmentalFactor d) \<subseteq> set (riskFactors res)"
    and "set vd \<subseteq> set (recommendations res)"
proof -
  obtain sa sr' vd' irs seas where f:
    "calculateSolarActivityData d r = Inr sa"
    "calculateSeasonalRisk d loc = Inr sr'"
    "vitaminDRecommendations sr' d = Inr vd'"
    "infectionRecommendations sr' d = Inr irs"
    "mentalHealthRecommendations (calculateMentalHealthRisk (sunspotNumber sa)) d = Inr []"
    "getSeasonalRecommendations d loc = Inr seas"
    using timing_Inr [OF assms(1), of r loc] by blast
  have eq: "sr' = sr" "vd' = vd" using f(2,3) assms(3,4) by simp_all
  obtain res' score where res: "calculateOptimalTiming loc d r = Inr res'"
    "riskFactors res' = solarFactor sa @ uvFactor sa @ vitaminDFactor sr'
                @ infectionFactor sr' @ academicFactor sr' @ latitudeFactor loc
                @ environmentalFactor d"
    "recommendations res' = js_sort recommendationOrder (uniq []
                (solarRecommendations sa @ vd' @ irs @ schoolRecommendations sr'
                 @ latitudeRecommendations loc @ [] @ seas @ closingRecommendation score))"
    using timing_fields [OF f] by blast
  have r: "res' = res" using res(1) assms(2) by simp
  show "set (environmentalFactor d) \<subseteq> set (riskFactors res)"
    using res(2) unfolding r by auto
  show "set vd \<subseteq> set (recommendations res)"
    using res(3) unfolding r eq by (auto simp: set_js_sort set_uniq)
qed

lemma uv_upper:
  "calculateUVIntensityByLatitude lat m \<le> max 0 (10 - (\<bar>lat\<bar> / 90) * 10) * 1.3"
proof -
  define b where "b = max 0 (10 - (\<bar>lat\<bar> / 90) * 10)"
  have b: "0 \<le> b" unfolding b_def by simp
  have "b * (cos x * 0.3 + 1) \<le> b * 1.3" for x :: real
    using b cos_le_one [of x] by (intro mult_left_mono) simp_all
  moreover have "0 \<le> b * 1.3" using b by simp
  ultimately have "max 0 (min 11 (b * (cos x * 0.3 + 1))) \<le> b * 1.3" for x :: real
    by (intro max.boundedI min.coboundedI2)
  then show ?thesis
    unfolding calculateUVIntensityByLatitude_def calculateDistanceFromEquator_def Let_def b_def
    by simp
qed

lemma foldl_sum_upper:
  fixes xs :: "real list"
  assumes "\<forall>x\<in>set xs. x \<le> B"
  shows "foldl (\<lambda>sum uv. sum + uv) a xs \<le> a + B * real (length xs)"
  using assms
proof (induction xs arbitrary: a)
  case Nil
  then show ?case by simp
next
  case (Cons x xs)
  have "foldl (\<lambda>sum uv. sum + uv) (a + x) xs \<le> (a + x) + B * real (length xs)"
    using Cons.IH Cons.prems by simp
  moreover have "x \<le> B" using Cons.prems by simp
  ultimately show ?case by (simp add: algebra_simps)
qed

lemma arctic_vitaminD: "calculateVitaminDSynthesis arctic d \<le> 22"
proof -
  have u: "calculateUVIntensityByLatitude (latitude arctic) m \<le> 13 / 6" for m
    using uv_upper [of "latitude arctic" m] by (simp add: arctic_def)
  define ms where "ms = map (\<lambda>i. calculateUVIntensityByLatitude (latitude arctic)
                        (((getMonth d + 1 - 1 + i) mod 12) + 1)) [0..<6]"
  have "\<forall>x\<in>set ms. x \<le> 13 / 6" unfolding ms_def using u by auto
  then have "foldl (\<lambda>sum uv. sum + uv) 0 ms \<le> 0 + 13 / 6 * real (length ms)"
    by (rule foldl_sum_upper)
  moreover have "length ms = 6" unfolding ms_def by simp
  ultimately have "foldl (\<lambda>sum uv. sum + uv) 0 ms / 6 * 10 \<le> 22" by simp
  then have "max 0 (min 100 (foldl (\<lambda>sum uv. sum + uv) 0 ms / 6 * 10)) \<le> 22" by simp
  then show ?thesis
    unfolding calculateVitaminDSynthesis_def Let_def ms_def .
qed

text \<open>
  Where the country is not the name of an inherited member, the overall score is an integer
  between 0 and 100.
\<close>

lemma overall_score_range:
  assumes "valid_date d" "\<not> inheritedKey (country loc)"
  shows "\<exists>res v. calculateOptimalTiming loc d r = Inr res
           \<and> overallScore res = Num v \<and> v \<in> \<int> \<and> 0 \<le> v \<and> v \<le> 100"
proof -
  obtain sa sr vd irs seas where f:
    "calculateSolarActivityData d r = Inr sa"
    "calculateSeasonalRisk d loc = Inr sr"
    "vitaminDRecommendations sr d = Inr vd"
    "infectionRecommendations sr d = Inr irs"
    "mentalHealthRecommendations (calculateMentalHealthRisk (sunspotNumber sa)) d = Inr []"
    "getSeasonalRecommendations d loc = Inr seas"
    and b: "num_within 0 100 (overallSeasonalScore sr)"
    "\<not> inheritedKey (country loc) \<longrightarrow> (\<exists>s. overallSeasonalScore sr = Num s)"
    using timing_Inr [OF assms(1), of r loc] by blast
  obtain s where s: "overallSeasonalScore sr = Num s" "0 \<le> s" "s \<le> 100"
    using b assms(2) by (auto simp: num_within_def)
  define w where "w = (max 0 (100 - \<bar>lifespanImpact sa\<bar> * 15) * WEIGHTS_solar) +
                (s * WEIGHTS_seasonal) +
                (max 0 (100 - \<bar>latitude loc\<bar>) * WEIGHTS_geographic) +
                (75 * WEIGHTS_environmental)"
  obtain res where res: "calculateOptimalTiming loc d r = Inr res"
    "overallScore res = num_lift (\<lambda>seasonalValue. js_round (
                (max 0 (100 - \<bar>lifespanImpact sa\<bar> * 15) * WEIGHTS_solar) +
                (seasonalValue * WEIGHTS_seasonal) +
                (max 0 (100 - \<bar>latitude loc\<bar>) * WEIGHTS_geographic) +
                (75 * WEIGHTS_environmental))) (overallSeasonalScore sr)"
    using timing_fields [OF f] by blast
  have score: "overallScore res = Num (js_round w)"
    unfolding res(2) s(1) w_def by (simp add: num_lift_def)
  have sb: "0 \<le> max 0 (100 - \<bar>lifespanImpact sa\<bar> * 15)"
      "max 0 (100 - \<bar>lifespanImpact sa\<bar> * 15) \<le> 100"
    by simp_all
  have g: "0 \<le> max 0 (100 - \<bar>latitude loc\<bar>)" "max 0 (100 - \<bar>latitude loc\<bar>) \<le> 100"
    by simp_all
  have lo: "0 \<le> a * 0.4 + b * 0.35 + c * 0.15 + 75 * 0.1"
    if "0 \<le> a" "0 \<le> b" "0 \<le> c" for a b c :: real
    using that by simp
  have hi: "a * 0.4 + b * 0.35 + c * 0.15 + 75 * 0.1 \<le> 100"
    if "a \<le> 100" "b \<le> 100" "c \<le> 100" for a b c :: real
    using that by simp
  have "0 \<le> w" "w \<le> 100"
    unfolding w_def WEIGHTS_solar_def WEIGHTS_seasonal_def WEIGHTS_geographic_def
      WEIGHTS_environmental_def
    by (rule lo [OF sb(1) s(2) g(1)], rule hi [OF sb(2) s(3) g(2)])
  then have "0 \<le> js_round w" "js_round w \<le> 100"
    using js_round_ge [of 0 w] js_round_le [of w 100] by simp_all
  then show ?thesis using res(1) score js_round_Ints by blast
qed

section \<open>The claims\<close>

lemma valid_january2024: "valid_date january2024"
  by (simp add: valid_date_def january2024_def getDaysInMonth_def)

lemma valid_july2024: "valid_date july2024"
  by (simp add: valid_date_def july2024_def getDaysInMonth_def)

text \<open>
  Claim C1 says that the field \<open>infectiousRisk\<close> of the record returned by
  \<open>calculateSeasonalRisk\<close> lies in \<open>[0,100]\<close> for every date and location. The source
  announces this scale in its comments (``Normalize risks to 0-100 scale'', ``clamped to
  0-100''), but it bounds the value only from below and applies the upper bound of 100
  only inside the overall score. For a birth in January in New York the table gives the
  multiplier 1.15, and the returned field is \<open>(1.15 - 0.8) * 500 = 175\<close>.
\<close>

theorem C1_infectious_risk_january_new_york:
  "\<exists>risk. calculateSeasonalRisk january2024 newYork = Inr risk \<and> infectiousRisk risk = 175"
  by (simp add: calculateSeasonalRisk_def calculateInfectiousRisk_def calculateDiseaseRisks_def
      calculateRelativeAgeEffect_def schoolYearCutoffs_def january2024_def newYork_def
      NORTHERN_HEMISPHERE_DISEASE_RISKS_def mkRisk_def isNorthernHemisphere_def bindE_def
      Let_def js_round_def)

text \<open>
  Claim C2 says that \<open>overallScore\<close> is an integer between 0 and 100 for every location
  with a latitude in \<open>[-90,90]\<close> and a longitude in \<open>[-180,180]\<close>, every date and every
  draw; the source says the same in its comment (``Calculate overall score (0-100, higher
  is better)''). The code reads the school-year cutoff with \<open>schoolYearCutoffs[country]\<close>
  from an object literal and falls back to the \<open>default\<close> entry only when that is falsy.
  For a country that is the name of a member inherited from \<open>Object.prototype\<close>, such as
  \<open>constructor\<close>, the lookup yields a function, the relative age advantage and the overall
  seasonal score are \<open>NaN\<close>, and so is the returned \<open>overallScore\<close>.
\<close>

theorem C2_overall_score_nan_for_inherited_country:
  "\<exists>res. calculateOptimalTiming constructorLand july2024 midDraws = Inr res
      \<and> overallScore res = NaN
      \<and> seasonal_relativeAgeAdvantage (seasonalData res) = NaN
      \<and> seasonal_overallSeasonalScore (seasonalData res) = NaN"
proof -
  have k: "inheritedKey (country constructorLand)"
    by (simp add: inheritedKey_def constructorLand_def objectPrototypeKeys_def)
  have m: "getMonth july2024 < 12" by (simp add: july2024_def)
  obtain sa sr vd irs seas where f:
    "calculateSolarActivityData july2024 midDraws = Inr sa"
    "calculateSeasonalRisk july2024 constructorLand = Inr sr"
    "vitaminDRecommendations sr july2024 = Inr vd"
    "infectionRecommendations sr july2024 = Inr irs"
    "mentalHealthRecommendations (calculateMentalHealthRisk (sunspotNumber sa)) july2024 = Inr []"
    "getSeasonalRecommendations july2024 constructorLand = Inr seas"
    using timing_Inr [OF valid_july2024, of midDraws constructorLand] by blast
  obtain sr' where sr': "calculateSeasonalRisk july2024 constructorLand = Inr sr'"
      "relativeAgeAdvantage sr' = NaN" "overallSeasonalScore sr' = NaN"
    using seasonal_Inr [OF m, of constructorLand] k by blast
  have n: "relativeAgeAdvantage sr = NaN" "overallSeasonalScore sr = NaN"
    using sr' f(2) by simp_all
  obtain res where res: "calculateOptimalTiming constructorLand july2024 midDraws = Inr res"
    "overallScore res = num_lift (\<lambda>seasonalValue. js_round (
                (max 0 (100 - \<bar>lifespanImpact sa\<bar> * 15) * WEIGHTS_solar) +
                (seasonalValue * WEIGHTS_seasonal) +
                (max 0 (100 - \<bar>latitude constructorLand\<bar>) * WEIGHTS_geographic) +
                (75 * WEIGHTS_environmental))) (overallSeasonalScore sr)"
    "seasonalData res =
                \<lparr> seasonal_vitaminDScore = vitaminDScore sr,
                  seasonal_infectiousRisk = infectiousRisk sr,
                  seasonal_relativeAgeAdvantage = relativeAgeAdvantage sr,
                  seasonal_overallSeasonalScore = overallSeasonalScore sr \<rparr>"
    using timing_fields [OF f] by blast
  have "overallScore res = NaN" unfolding res(2) n(2) by (simp add: num_lift_def)
  moreover have "seasonal_relativeAgeAdvantage (seasonalData res) = NaN"
      "seasonal_overallSeasonalScore (seasonalData res) = NaN"
    unfolding res(3) using n by simp_all
  ultimately show ?thesis using res(1) by blast
qed




text \<open>
  Claim C4 says that every solar cycle record satisfies \<open>startYear < peakYear < endYear\<close>
  and that, under the year-membership test of the code, no calendar year belongs to two
  cycles and no year from 1964 onward belongs to none. The first and the last part hold.
  The middle part fails: the test \<open>year >= startYear && year <= endYear\<close> includes both
  ends, and each cycle of the table ends in the year in which the next one starts, so the
  year 1976 belongs to cycle 20 and to cycle 21.
\<close>

theorem C4_counterexample_year_1976_in_two_cycles:
  "inCycle 1976 (SOLAR_CYCLES ! 0) \<and> inCycle 1976 (SOLAR_CYCLES ! 1)
   \<and> SOLAR_CYCLES ! 0 \<noteq> SOLAR_CYCLES ! 1"
  by (simp add: SOLAR_CYCLES_def inCycle_def)

text \<open>
  Claim C4 as amended: every solar cycle record, of the table or predicted, satisfies
  \<open>startYear < peakYear < endYear\<close>; the cycle that \<open>getSolarCycleForDate\<close> returns for a
  date from 1964 onward contains the year of the date; two different cycles share at most
  one calendar year, the boundary year in which one of them ends and the other starts; and
  such a boundary year is resolved to the cycle that ends in it.
\<close>

theorem C4_cycles_ordered_sharing_boundary_years:
  assumes "c1 \<in> set SOLAR_CYCLES \<union> range predictFutureSolarCycle"
    and "c2 \<in> set SOLAR_CYCLES \<union> range predictFutureSolarCycle"
  shows "startYear c1 < peakYear c1 \<and> peakYear c1 < endYear c1
       \<and> getSolarCycleForDate d \<in> set SOLAR_CYCLES \<union> range predictFutureSolarCycle
       \<and> (1964 \<le> getYear d \<longrightarrow> inCycle (getYear d) (getSolarCycleForDate d))
       \<and> (c1 \<noteq> c2 \<and> inCycle y c1 \<and> inCycle y c2 \<longrightarrow>
            (y = endYear c1 \<and> y = startYear c2) \<or> (y = endYear c2 \<and> y = startYear c1))
       \<and> (1964 \<le> getYear d \<and> c1 \<noteq> getSolarCycleForDate d \<and> inCycle (getYear d) c1 \<longrightarrow>
            getYear d = startYear c1 \<and> getYear d = endYear (getSolarCycleForDate d))"
proof -
  have ordered: "startYear c1 < peakYear c1 \<and> peakYear c1 < endYear c1"
    using cycle_cases [OF assms(1)] table_ordered [of c1] by (auto simp: futureCycle_def)
  have overlap: "(y = endYear a \<and> y = startYear b) \<or> (y = endYear b \<and> y = startYear a)"
    if a: "a \<in> set SOLAR_CYCLES \<union> range predictFutureSolarCycle"
      and b: "b \<in> set SOLAR_CYCLES \<union> range predictFutureSolarCycle"
      and ne: "a \<noteq> b" and y: "inCycle y a" "inCycle y b" for a b y
  proof -
    consider (tt) "a \<in> set SOLAR_CYCLES" "b \<in> set SOLAR_CYCLES"
      | (tf) k where "a \<in> set SOLAR_CYCLES" "1 \<le> k" "b = futureCycle k"
      | (ft) k where "b \<in> set SOLAR_CYCLES" "1 \<le> k" "a = futureCycle k"
      | (ff) k1 k2 where "1 \<le> k1" "a = futureCycle k1" "1 \<le> k2" "b = futureCycle k2"
      using cycle_cases [OF a] cycle_cases [OF b] by blast
    then show ?thesis
    proof cases
      case tt
      then show ?thesis using table_overlap ne y by blast
    next
      case tf
      then show ?thesis using mixed_overlap [of a k y] y by blast
    next
      case ft
      then show ?thesis using mixed_overlap [of b k y] y by blast
    next
      case ff
      then show ?thesis using future_overlap [of k1 k2 y] ne y by blast
    qed
  qed
  have earlier: "getYear d = startYear c1 \<and> getYear d = endYear (getSolarCycleForDate d)"
    if y: "1964 \<le> getYear d" and ne: "c1 \<noteq> getSolarCycleForDate d"
      and c: "inCycle (getYear d) c1"
  proof -
    have "(getYear d = endYear c1 \<and> getYear d = startYear (getSolarCycleForDate d))
        \<or> (getYear d = endYear (getSolarCycleForDate d) \<and> getYear d = startYear c1)"
      using overlap [OF assms(1) lookup_member ne c lookup_in_cycle [OF y]] .
    moreover have "\<not> (getYear d = endYear c1 \<and> getYear d = startYear (getSolarCycleForDate d))"
      using lookup_start [OF y] cycle_end_lower [OF assms(1)] by auto
    ultimately show ?thesis by blast
  qed
  show ?thesis
    using ordered overlap [OF assms] earlier lookup_in_cycle lookup_member by blast
qed

theorem C4_witness_cycles_20_and_21:
  "SOLAR_CYCLES ! 0 \<in> set SOLAR_CYCLES \<union> range predictFutureSolarCycle
   \<and> SOLAR_CYCLES ! 1 \<in> set SOLAR_CYCLES \<union> range predictFutureSolarCycle
   \<and> 1964 \<le> getYear year1976
   \<and> SOLAR_CYCLES ! 1 \<noteq> SOLAR_CYCLES ! 0
   \<and> inCycle 1976 (SOLAR_CYCLES ! 1) \<and> inCycle 1976 (SOLAR_CYCLES ! 0)
   \<and> SOLAR_CYCLES ! 1 \<noteq> getSolarCycleForDate year1976
   \<and> inCycle (getYear year1976) (SOLAR_CYCLES ! 1)
   \<and> startYear (SOLAR_CYCLES ! 1) < peakYear (SOLAR_CYCLES ! 1)
   \<and> peakYear (SOLAR_CYCLES ! 1) < endYear (SOLAR_CYCLES ! 1)
   \<and> inCycle (getYear year1976) (getSolarCycleForDate year1976)
   \<and> 1976 = endYear (SOLAR_CYCLES ! 0) \<and> 1976 = startYear (SOLAR_CYCLES ! 1)
   \<and> getYear year1976 = endYear (getSolarCycleForDate year1976)"
proof -
  have m: "SOLAR_CYCLES ! 0 \<in> set SOLAR_CYCLES \<union> range predictFutureSolarCycle"
    "SOLAR_CYCLES ! 1 \<in> set SOLAR_CYCLES \<union> range predictFutureSolarCycle"
    by (simp_all add: SOLAR_CYCLES_def)
  have l: "getSolarCycleForDate year1976 = SOLAR_CYCLES ! 0"
    by (simp add: getSolarCycleForDate_def year1976_def find_table)
  have h: "1964 \<le> getYear year1976" "SOLAR_CYCLES ! 1 \<noteq> SOLAR_CYCLES ! 0"
    "inCycle 1976 (SOLAR_CYCLES ! 1)" "inCycle 1976 (SOLAR_CYCLES ! 0)"
    "getYear year1976 = 1976"
    by (simp_all add: year1976_def SOLAR_CYCLES_def inCycle_def)
  show ?thesis
    using C4_cycles_ordered_sharing_boundary_years [OF m(2) m(1), of year1976 1976] m h unfolding l
    by (simp add: SOLAR_CYCLES_def)
qed

text \<open>
  Claim C5: in the list of recommendations of every result of \<open>calculateOptimalTiming\<close>,
  every string that contains the critical marker (the warning sign followed by
  \<open>CRITICAL\<close>) stands before every string that does not contain it. The comparator of the
  source answers \<open>-1\<close> whenever its first argument is critical, also against another
  critical string, so it does not order two critical strings consistently; the proof uses
  only the sign of its answer for a critical string against any string and for a string
  that is not critical against a critical one.
\<close>

theorem C5_critical_recommendations_first:
  assumes "valid_date d"
  shows "\<exists>res. calculateOptimalTiming loc d r = Inr res
           \<and> (\<forall>i j. i < length (recommendations res) \<and> j < length (recommendations res)
                 \<and> str_includes (recommendations res ! i) criticalMarker
                 \<and> \<not> str_includes (recommendations res ! j) criticalMarker
                 \<longrightarrow> i < j)"
proof -
  obtain sa sr vd irs seas where f:
    "calculateSolarActivityData d r = Inr sa"
    "calculateSeasonalRisk d loc = Inr sr"
    "vitaminDRecommendations sr d = Inr vd"
    "infectionRecommendations sr d = Inr irs"
    "mentalHealthRecommendations (calculateMentalHealthRisk (sunspotNumber sa)) d = Inr []"
    "getSeasonalRecommendations d loc = Inr seas"
    using timing_Inr [OF assms, of r loc] by blast
  obtain res xs where res: "calculateOptimalTiming loc d r = Inr res"
    "recommendations res = js_sort recommendationOrder xs"
    using timing_fields [OF f] by blast
  have "marked_first (\<lambda>s. str_includes s criticalMarker) (recommendations res)"
    unfolding res(2) by (rule recommendations_marked_first)
  then have "i < j" if "i < length (recommendations res)" "j < length (recommendations res)"
      "str_includes (recommendations res ! i) criticalMarker"
      "\<not> str_includes (recommendations res ! j) criticalMarker" for i j
    using that by (rule marked_first_index)
  then show ?thesis using res(1) by blast
qed

theorem C5_witness_arctic_january:
  "valid_date january2024
   \<and> (\<exists>res i j. calculateOptimalTiming arctic january2024 midDraws = Inr res
         \<and> i < length (recommendations res) \<and> j < length (recommendations res)
         \<and> str_includes (recommendations res ! i) criticalMarker
         \<and> \<not> str_includes (recommendations res ! j) criticalMarker
         \<and> i < j)"
proof -
  have m: "getMonth january2024 < 12" by (simp add: january2024_def)
  obtain res where res: "calculateOptimalTiming arctic january2024 midDraws = Inr res"
    and first: "\<forall>i j. i < length (recommendations res) \<and> j < length (recommendations res)
                 \<and> str_includes (recommendations res ! i) criticalMarker
                 \<and> \<not> str_includes (recommendations res ! j) criticalMarker
                 \<longrightarrow> i < j"
    using C5_critical_recommendations_first [OF valid_january2024, of arctic midDraws] by blast
  obtain v where v: "calculateInfectiousRisk january2024 arctic = Inr v"
    using infectious_Inr [OF m] by blast
  obtain dr where dr: "calculateDiseaseRisks january2024 arctic = Inr dr"
    using disease_Inr [OF m] by blast
  obtain sr where sr: "calculateSeasonalRisk january2024 arctic = Inr sr"
    "vitaminDScore sr = js_round (calculateVitaminDSynthesis arctic january2024)"
    using seasonal_fields [OF v dr] by blast
  have "vitaminDScore sr \<le> 22"
    unfolding sr(2) using js_round_le [of _ 22] arctic_vitaminD [of january2024] by simp
  then have low: "vitaminDScore sr < 30" by simp
  define critical where "critical = warningSign @ '' CRITICAL: Start high-dose vitamin D supplementation immediately (2000-4000 IU daily) - severe deficiency risk in January''"
  define plain where "plain = ''Schedule vitamin D blood test before conception and monitor levels throughout pregnancy''"
  have vd: "vitaminDRecommendations sr january2024 = Inr [critical, plain]"
    using low valid_january2024
    by (simp add: vitaminDRecommendations_def format_valid bindE_def critical_def plain_def)
       (simp add: january2024_def monthNames_def)
  have "set [critical, plain] \<subseteq> set (recommendations res)"
    using timing_parts(2) [OF valid_january2024 res sr(1) vd] .
  then obtain i j where ij: "i < length (recommendations res)" "recommendations res ! i = critical"
      "j < length (recommendations res)" "recommendations res ! j = plain"
    by (auto simp: in_set_conv_nth)
  have c: "str_includes critical criticalMarker"
    by (simp add: critical_def criticalMarker_def warningSign_def)
  have p: "\<not> str_includes plain criticalMarker"
    by (simp add: plain_def criticalMarker_def warningSign_def)
  have "i < j" using first ij c p by simp
  then show ?thesis using valid_january2024 res ij c p by metis
qed

text \<open>
  Claim C6: for every location with a latitude between \<open>-90\<close> and \<open>90\<close>, every calendar
  date and every draw, each risk factor in the list that \<open>calculateOptimalTiming\<close> returns,
  whichever of the seven branches produced it, has an impact between \<open>-100\<close> and \<open>100\<close>.
\<close>

theorem C6_risk_factor_impacts_in_range:
  assumes "valid_date d" "- 90 \<le> latitude loc" "latitude loc \<le> 90"
  shows "\<exists>res. calculateOptimalTiming loc d r = Inr res
           \<and> (\<forall>f\<in>set (riskFactors res). - 100 \<le> impact f \<and> impact f \<le> 100)"
proof -
  obtain sa sr vd irs seas where f:
    "calculateSolarActivityData d r = Inr sa"
    "calculateSeasonalRisk d loc = Inr sr"
    "vitaminDRecommendations sr d = Inr vd"
    "infectionRecommendations sr d = Inr irs"
    "mentalHealthRecommendations (calculateMentalHealthRisk (sunspotNumber sa)) d = Inr []"
    "getSeasonalRecommendations d loc = Inr seas"
    and b: "- 7.2 \<le> lifespanImpact sa" "lifespanImpact sa \<le> 1"
    "5 \<le> uvRadiationLevel sa" "uvRadiationLevel sa \<le> 11"
    "0 \<le> vitaminDScore sr" "vitaminDScore sr \<le> 100"
    "10 \<le> infectiousRisk sr" "infectiousRisk sr \<le> 175"
    "num_within 0 100 (relativeAgeAdvantage sr)"
    using timing_Inr [OF assms(1), of r loc] by blast
  obtain res where res: "calculateOptimalTiming loc d r = Inr res"
    "riskFactors res = solarFactor sa @ uvFactor sa @ vitaminDFactor sr
                @ infectionFactor sr @ academicFactor sr @ latitudeFactor loc
                @ environmentalFactor d"
    using timing_fields [OF f] by blast
  have "- 100 \<le> impact x \<and> impact x \<le> 100" if "x \<in> set (riskFactors res)" for x
    using that unfolding res(2)
    using solar_factor_impact [OF b(1,2)] uv_factor_impact [OF b(3,4)]
      vitaminD_factor_impact [OF b(5,6)] infection_factor_impact [OF b(7,8)]
      academic_factor_impact [OF b(9)] latitude_factor_impact [OF assms(2,3)]
      environmental_factor_impact
    by (simp only: set_append Un_iff) blast
  then show ?thesis using res(1) by blast
qed

theorem C6_witness_new_york_july:
  "valid_date july2024 \<and> - 90 \<le> latitude newYork \<and> latitude newYork \<le> 90
   \<and> (\<exists>res f. calculateOptimalTiming newYork july2024 midDraws = Inr res
         \<and> f \<in> set (riskFactors res) \<and> name f = ''Summer Air Quality''
         \<and> impact f = 8 \<and> - 100 \<le> impact f \<and> impact f \<le> 100)"
proof -
  have l: "- 90 \<le> latitude newYork" "latitude newYork \<le> 90" by (simp_all add: newYork_def)
  obtain res where res: "calculateOptimalTiming newYork july2024 midDraws = Inr res"
    and bound: "\<forall>f\<in>set (riskFactors res). - 100 \<le> impact f \<and> impact f \<le> 100"
    using C6_risk_factor_impacts_in_range [OF valid_july2024 l, of midDraws] by blast
  obtain sr where sr: "calculateSeasonalRisk july2024 newYork = Inr sr"
    using seasonal_Inr [of july2024 newYork] by (auto simp: july2024_def)
  obtain vd where vd: "vitaminDRecommendations sr july2024 = Inr vd"
    using vitaminD_recs_Inr [OF valid_july2024] by blast
  define f where "f = \<lparr> category = environmental, name = ''Summer Air Quality'', impact = 8,
      severity = LOW, description = ''Generally better air quality and outdoor conditions'' \<rparr>"
  have "environmentalFactor july2024 = [f]"
    by (simp add: environmentalFactor_def july2024_def f_def Let_def)
  then have "f \<in> set (riskFactors res)"
    using timing_parts(1) [OF valid_july2024 res sr vd] by simp
  moreover have "name f = ''Summer Air Quality''" "impact f = 8" by (simp_all add: f_def)
  ultimately show ?thesis using valid_july2024 l res bound by blast
qed

text \<open>
  Claim C7: for a location of the Southern Hemisphere (latitude at most 0) and a date with
  birth month \<open>m = getMonth d + 1\<close>, \<open>calculateDiseaseRisks\<close> returns exactly the entry of
  the Northern-Hemisphere table for the month \<open>((m + 5) mod 12) + 1\<close>; this is what the
  function returns for a Northern-Hemisphere location and a date in that month.
\<close>

theorem C7_southern_lookup_six_months_offset:
  assumes "latitude loc \<le> 0"
  shows "\<exists>entry. NORTHERN_HEMISPHERE_DISEASE_RISKS (((getMonth d + 1 + 5) mod 12) + 1) = Some entry
           \<and> calculateDiseaseRisks d loc = Inr entry
           \<and> (\<forall>d' loc'. latitude loc' > 0 \<and> getMonth d' + 1 = ((getMonth d + 1 + 5) mod 12) + 1
                 \<longrightarrow> calculateDiseaseRisks d' loc' = Inr entry)"
proof -
  let ?k = "((getMonth d + 1 + 5) mod 12) + 1"
  have "1 \<le> ?k" "?k \<le> 12" by simp_all
  then obtain e where e: "NORTHERN_HEMISPHERE_DISEASE_RISKS ?k = Some e"
    using table_defined by blast
  have "calculateDiseaseRisks d loc = Inr e"
    using assms e by (simp add: calculateDiseaseRisks_def isNorthernHemisphere_def Let_def)
  moreover have "calculateDiseaseRisks d' loc' = Inr e"
    if "latitude loc' > 0" "getMonth d' + 1 = ?k" for d' loc'
    using that e by (simp add: calculateDiseaseRisks_def isNorthernHemisphere_def Let_def)
  ultimately show ?thesis using e by blast
qed

theorem C7_witness_sydney_january:
  "latitude sydney \<le> 0
   \<and> NORTHERN_HEMISPHERE_DISEASE_RISKS 7 = Some (mkRisk 0.90 0.85 1.10 0.85 0.82)
   \<and> calculateDiseaseRisks january2024 sydney = Inr (mkRisk 0.90 0.85 1.10 0.85 0.82)
   \<and> calculateDiseaseRisks july2024 newYork = Inr (mkRisk 0.90 0.85 1.10 0.85 0.82)"
proof -
  have s: "latitude sydney \<le> 0" by (simp add: sydney_def)
  have n: "latitude newYork > 0 \<and> getMonth july2024 + 1 = ((getMonth january2024 + 1 + 5) mod 12) + 1"
    by (simp add: newYork_def july2024_def january2024_def)
  have t: "NORTHERN_HEMISPHERE_DISEASE_RISKS (((getMonth january2024 + 1 + 5) mod 12) + 1)
             = Some (mkRisk 0.90 0.85 1.10 0.85 0.82)"
    by (simp add: january2024_def NORTHERN_HEMISPHERE_DISEASE_RISKS_def)
  show ?thesis
    using C7_southern_lookup_six_months_offset [OF s, of january2024] n t s
    by (auto simp: january2024_def)
qed

text \<open>
  Claim C8: for every location, every calendar date and every draw,
  \<open>calculateOptimalTiming\<close> runs to completion and returns a result; none of the failure
  branches (a missing table entry, a zero divisor, formatting an invalid date) is reached.
  In particular the month with which the disease table is read lies between 1 and 12, so
  both lookups find an entry, and the length of the solar cycle by which the sunspot
  computation divides is not zero. This holds also for a country that names an inherited
  member of the cutoff table: the scores of the result are then \<open>NaN\<close>, which is a value
  of the result and raises nothing.
\<close>

theorem C8_engine_total_on_valid_input:
  assumes "valid_date d"
  shows "(\<exists>res. calculateOptimalTiming loc d r = Inr res)
       \<and> (\<exists>solarActivity. calculateSolarActivityData d r = Inr solarActivity)
       \<and> (\<exists>seasonalRisk. calculateSeasonalRisk d loc = Inr seasonalRisk)
       \<and> (if isNorthernHemisphere (latitude loc) then getMonth d + 1
           else ((getMonth d + 1 + 5) mod 12) + 1) \<in> {1..12}
       \<and> (\<exists>v. calculateInfectiousRisk d loc = Inr v)
       \<and> (\<exists>risks. calculateDiseaseRisks d loc = Inr risks)
       \<and> endYear (getSolarCycleForDate d) - startYear (getSolarCycleForDate d) \<noteq> 0
       \<and> (\<exists>s. calculateSunspotNumber d (sunspotDraw r) = Inr s)"
proof -
  have m: "getMonth d < 12" using assms by (simp add: valid_date_def)
  obtain sa sr vd irs seas where f:
    "calculateSolarActivityData d r = Inr sa"
    "calculateSeasonalRisk d loc = Inr sr"
    "vitaminDRecommendations sr d = Inr vd"
    "infectionRecommendations sr d = Inr irs"
    "mentalHealthRecommendations (calculateMentalHealthRisk (sunspotNumber sa)) d = Inr []"
    "getSeasonalRecommendations d loc = Inr seas"
    using timing_Inr [OF assms, of r loc] by blast
  have "\<exists>res. calculateOptimalTiming loc d r = Inr res"
    using timing_fields [OF f] by blast
  moreover have "\<exists>solarActivity. calculateSolarActivityData d r = Inr solarActivity"
    using f(1) by blast
  moreover have "\<exists>seasonalRisk. calculateSeasonalRisk d loc = Inr seasonalRisk"
    using f(2) by blast
  moreover have "(if isNorthernHemisphere (latitude loc) then getMonth d + 1
           else ((getMonth d + 1 + 5) mod 12) + 1) \<in> {1..12}"
    using adjusted_month_range [OF m, of "latitude loc"] by simp
  moreover have "\<exists>v. calculateInfectiousRisk d loc = Inr v"
    using infectious_Inr [OF m] by blast
  moreover have "\<exists>risks. calculateDiseaseRisks d loc = Inr risks"
    using disease_Inr [OF m] by blast
  moreover have "endYear (getSolarCycleForDate d) - startYear (getSolarCycleForDate d) \<noteq> 0"
    using cycle_length_pos [of d] by simp
  moreover have "\<exists>s. calculateSunspotNumber d (sunspotDraw r) = Inr s"
    using sunspot_Inr by blast
  ultimately show ?thesis by blast
qed

theorem C8_witness_new_york_july:
  "valid_date july2024
   \<and> (\<exists>res. calculateOptimalTiming newYork july2024 midDraws = Inr res)
   \<and> (\<exists>res. calculateOptimalTiming constructorLand july2024 midDraws = Inr res)
   \<and> (\<exists>v. calculateInfectiousRisk july2024 newYork = Inr v)
   \<and> endYear (getSolarCycleForDate july2024) - startYear (getSolarCycleForDate july2024) \<noteq> 0"
  using C8_engine_total_on_valid_input [OF valid_july2024, of newYork midDraws]
    C8_engine_total_on_valid_input [OF valid_july2024, of constructorLand midDraws]
    valid_july2024
  by simp

text \<open>
  Claim C9: two calls of \<open>calculateOptimalTiming\<close> with the same location and date return
  the same \<open>seasonalData\<close> (vitamin D score, infectious risk, relative age advantage and
  overall seasonal score), whatever the random draws of the two calls are.
\<close>

theorem C9_seasonal_data_independent_of_draws:
  assumes "valid_date d"
  shows "\<exists>res1 res2. calculateOptimalTiming loc d r1 = Inr res1
           \<and> calculateOptimalTiming loc d r2 = Inr res2
           \<and> seasonalData res1 = seasonalData res2"
proof -
  have "\<exists>res sr. calculateSeasonalRisk d loc = Inr sr \<and> calculateOptimalTiming loc d r = Inr res
      \<and> seasonalData res =
                \<lparr> seasonal_vitaminDScore = vitaminDScore sr,
                  seasonal_infectiousRisk = infectiousRisk sr,
                  seasonal_relativeAgeAdvantage = relativeAgeAdvantage sr,
                  seasonal_overallSeasonalScore = overallSeasonalScore sr \<rparr>" for r
  proof -
    obtain sa sr vd irs seas where f:
      "calculateSolarActivityData d r = Inr sa"
      "calculateSeasonalRisk d loc = Inr sr"
      "vitaminDRecommendations sr d = Inr vd"
      "infectionRecommendations sr d = Inr irs"
      "mentalHealthRecommendations (calculateMentalHealthRisk (sunspotNumber sa)) d = Inr []"
      "getSeasonalRecommendations d loc = Inr seas"
      using timing_Inr [OF assms, of r loc] by blast
    show ?thesis using timing_fields [OF f] f(2) by blast
  qed
  from this [of r1] this [of r2] show ?thesis by force
qed

theorem C9_witness_two_draws:
  "valid_date july2024
   \<and> (\<exists>res1 res2. calculateOptimalTiming newYork july2024 midDraws = Inr res1
         \<and> calculateOptimalTiming newYork july2024 lowDraws = Inr res2
         \<and> seasonalData res1 = seasonalData res2)"
  using C9_seasonal_data_independent_of_draws [OF valid_july2024, of newYork midDraws lowDraws]
    valid_july2024
  by simp

text \<open>
  Claim C10: \<open>calculateMentalHealthRisk\<close> returns only \<open>1.0\<close> or \<open>1.3\<close>, the
  mental-health branch of \<open>calculateOptimalTiming\<close> asks for a multiplier strictly above
  \<open>1.3\<close>, and so for every location, calendar date and draw the returned recommendations
  do not contain the message of that branch.
\<close>

theorem C10_mental_health_branch_never_fires:
  assumes "valid_date d"
  shows "(\<exists>res. calculateOptimalTiming loc d r = Inr res
           \<and> (solar_mentalHealthMultiplier (solarData res) = 1.0
                \<or> solar_mentalHealthMultiplier (solarData res) = 1.3)
           \<and> \<not> solar_mentalHealthMultiplier (solarData res) > 1.3
           \<and> mentalHealthMessage \<notin> set (recommendations res))
       \<and> (calculateMentalHealthRisk s = 1.0 \<or> calculateMentalHealthRisk s = 1.3)
       \<and> mentalHealthRecommendations (calculateMentalHealthRisk s) d = Inr []"
proof -
  obtain sa sr vd irs seas where f:
    "calculateSolarActivityData d r = Inr sa"
    "calculateSeasonalRisk d loc = Inr sr"
    "vitaminDRecommendations sr d = Inr vd"
    "infectionRecommendations sr d = Inr irs"
    "mentalHealthRecommendations (calculateMentalHealthRisk (sunspotNumber sa)) d = Inr []"
    "getSeasonalRecommendations d loc = Inr seas"
    using timing_Inr [OF assms, of r loc] by blast
  obtain res score where res: "calculateOptimalTiming loc d r = Inr res"
    "solar_mentalHealthMultiplier (solarData res) = calculateMentalHealthRisk (sunspotNumber sa)"
    "recommendations res = js_sort recommendationOrder (uniq []
                (solarRecommendations sa @ vd @ irs @ schoolRecommendations sr
                 @ latitudeRecommendations loc @ [] @ seas @ closingRecommendation score))"
    using timing_fields [OF f] by blast
  have "mentalHealthMessage \<notin> set (recommendations res)"
    unfolding res(3) set_js_sort set_uniq
    using solar_recs_no_message [of sa] vitaminD_recs_no_message [OF assms f(3)]
      infection_recs_no_message [OF assms f(4)] school_recs_no_message [of sr]
      latitude_recs_no_message [of loc] closing_no_message [of score]
      seasonal_recs_no_message [OF f(6)]
    by simp
  moreover have "solar_mentalHealthMultiplier (solarData res) = 1.0
                \<or> solar_mentalHealthMultiplier (solarData res) = 1.3"
    unfolding res(2) by (rule mental_health_values)
  ultimately have "\<exists>res. calculateOptimalTiming loc d r = Inr res
           \<and> (solar_mentalHealthMultiplier (solarData res) = 1.0
                \<or> solar_mentalHealthMultiplier (solarData res) = 1.3)
           \<and> \<not> solar_mentalHealthMultiplier (solarData res) > 1.3
           \<and> mentalHealthMessage \<notin> set (recommendations res)"
    using res(1) by auto
  then show ?thesis
    using mental_health_values [of s] mental_health_recs_empty [of s d] by blast
qed

theorem C10_witness_new_york_july:
  "valid_date july2024
   \<and> (\<exists>res. calculateOptimalTiming newYork july2024 midDraws = Inr res
         \<and> mentalHealthMessage \<notin> set (recommendations res))"
  using C10_mental_health_branch_never_fires [OF valid_july2024, of newYork midDraws]
    valid_july2024
  by auto

end
